theory Spec2Isabelle
  imports Main "HOL-Library.AList"
begin

section \<open>JavaScript values\<close>

text \<open>
  Request bodies, validated payloads, database rows and response bodies are JavaScript
  objects. An object is an association list from keys to values with \<open>map_of\<close> as the
  property read; a key that is not in the list reads as \<open>undefined\<close> (\<open>None\<close>).
  Numbers are the integers (identifiers, counters); \<open>parseInt\<close> yields \<open>None\<close> for
  \<open>NaN\<close>.
\<close>

datatype json =
    JNull
  | JBool bool
  | JNum int
  | JStr string
  | JArr "json list"
  | JObj "(string \<times> json) list"

type_synonym obj = "(string \<times> json) list"

text \<open>Truthiness of a property read, as \<open>!x\<close>, \<open>x || y\<close> and \<open>x && y\<close> test it.\<close>

fun truthy :: "json option \<Rightarrow> bool" where
  "truthy None = False"
| "truthy (Some JNull) = False"
| "truthy (Some (JBool b)) = b"
| "truthy (Some (JNum n)) = (n \<noteq> 0)"
| "truthy (Some (JStr s)) = (s \<noteq> [])"
| "truthy (Some (JArr xs)) = True"
| "truthy (Some (JObj kvs)) = True"

text \<open>\<open>a || b\<close> where \<open>b\<close> is a value.\<close>

definition js_or :: "json option \<Rightarrow> json \<Rightarrow> json" where
  "js_or a b = (case a of None \<Rightarrow> b | Some v \<Rightarrow> if truthy (Some v) then v else b)"

text \<open>
  An object literal \<open>{ k1: v1, ... }\<close> whose values may be \<open>undefined\<close>: such a property
  is not stored (the database client ignores it and \<open>JSON.stringify\<close> drops it).
\<close>

fun literal :: "(string \<times> json option) list \<Rightarrow> obj" where
  "literal [] = []"
| "literal ((k, None) # kvs) = literal kvs"
| "literal ((k, Some v) # kvs) = (k, v) # literal kvs"

text \<open>Spread with overrides, \<open>{ ...a, k: v }\<close>, and rest destructuring \<open>{ k, ...rest }\<close>.\<close>

definition spread_set :: "obj \<Rightarrow> string \<Rightarrow> json \<Rightarrow> obj" where
  "spread_set a k v = AList.update k v a"

definition rest_without :: "string \<Rightarrow> obj \<Rightarrow> obj" where
  "rest_without k a = AList.delete k a"

subsection \<open>parseInt\<close>

text \<open>
  \<open>parseInt(s)\<close> without a radix: leading white space is skipped, a sign is read, a
  \<open>0x\<close> prefix selects base 16, and the longest prefix of digits is the value; no digit
  at all is \<open>NaN\<close>. The value is the exact integer, as JavaScript computes it for
  every identifier a 32-bit column can hold (a double is exact up to \<open>2 ^ 53\<close>).
\<close>

definition is_space :: "char \<Rightarrow> bool" where
  "is_space c = (c \<in> set [CHR '' '', CHR 0x09, CHR 0x0A, CHR 0x0B, CHR 0x0C, CHR 0x0D])"

definition digit_value :: "char \<Rightarrow> nat option" where
  "digit_value c =
     (let n = (of_char c :: nat) in
      if 48 \<le> n \<and> n \<le> 57 then Some (n - 48)
      else if 97 \<le> n \<and> n \<le> 102 then Some (n - 87)
      else if 65 \<le> n \<and> n \<le> 70 then Some (n - 55)
      else None)"

fun digits_prefix :: "nat \<Rightarrow> string \<Rightarrow> nat list" where
  "digits_prefix radix [] = []"
| "digits_prefix radix (c # cs) =
     (case digit_value c of
        None \<Rightarrow> []
      | Some d \<Rightarrow> if d < radix then d # digits_prefix radix cs else [])"

definition digits_number :: "nat \<Rightarrow> nat list \<Rightarrow> nat" where
  "digits_number radix ds = foldl (\<lambda>acc d. acc * radix + d) 0 ds"

definition parse_magnitude :: "string \<Rightarrow> nat option" where
  "parse_magnitude s =
     (let (radix, rest) =
        (case s of
           c0 # cx # r \<Rightarrow>
             if c0 = CHR ''0'' \<and> (cx = CHR ''x'' \<or> cx = CHR ''X'') then (16, r) else (10, s)
         | _ \<Rightarrow> (10, s));
          ds = digits_prefix radix rest
      in if ds = [] then None else Some (digits_number radix ds))"

definition parseInt :: "string \<Rightarrow> int option" where
  "parseInt s =
     (case dropWhile is_space s of
        [] \<Rightarrow> None
      | c # cs \<Rightarrow>
          if c = CHR ''-'' then map_option (\<lambda>n. - int n) (parse_magnitude cs)
          else if c = CHR ''+'' then map_option int (parse_magnitude cs)
          else map_option int (parse_magnitude (c # cs)))"

section \<open>Schema validation\<close>

text \<open>
  The schemas of the repository are \<open>z.object\<close> shapes whose fields are strings, e-mail
  strings, numbers, booleans, string arrays or enums, each required, \<open>.optional()\<close> or
  with a \<open>.default(v)\<close>. Parsing reads every declared key of the input, reports the keys
  whose value has the wrong type, fills defaults in for \<open>undefined\<close> and drops keys the
  shape does not declare. The e-mail test of the validation library is a parameter.
\<close>

datatype ztype = ZString | ZEmail | ZNumber | ZBoolean | ZStringArray | ZEnum "string list"

datatype zfield = Required ztype | Optional ztype | Default ztype json

type_synonym zschema = "(string \<times> zfield) list"

fun is_string :: "json \<Rightarrow> bool" where
  "is_string (JStr s) = True"
| "is_string _ = False"

fun accepts :: "(string \<Rightarrow> bool) \<Rightarrow> ztype \<Rightarrow> json \<Rightarrow> bool" where
  "accepts isEmail ZString v = is_string v"
| "accepts isEmail ZEmail v = (case v of JStr s \<Rightarrow> isEmail s | _ \<Rightarrow> False)"
| "accepts isEmail ZNumber v = (case v of JNum n \<Rightarrow> True | _ \<Rightarrow> False)"
| "accepts isEmail ZBoolean v = (case v of JBool b \<Rightarrow> True | _ \<Rightarrow> False)"
| "accepts isEmail ZStringArray v = (case v of JArr xs \<Rightarrow> list_all is_string xs | _ \<Rightarrow> False)"
| "accepts isEmail (ZEnum names) v = (case v of JStr s \<Rightarrow> s \<in> set names | _ \<Rightarrow> False)"

fun field_type :: "zfield \<Rightarrow> ztype" where
  "field_type (Required t) = t"
| "field_type (Optional t) = t"
| "field_type (Default t d) = t"

text \<open>
  One field: \<open>Inl ()\<close> is an issue at this key, \<open>Inr None\<close> leaves the key out of the
  result, \<open>Inr (Some v)\<close> puts \<open>v\<close> there.
\<close>

fun zparse_field :: "(string \<Rightarrow> bool) \<Rightarrow> zfield \<Rightarrow> json option \<Rightarrow> unit + json option" where
  "zparse_field isEmail (Required t) None = Inl ()"
| "zparse_field isEmail (Optional t) None = Inr None"
| "zparse_field isEmail (Default t d) None = Inr (Some d)"
| "zparse_field isEmail f (Some v) =
     (if accepts isEmail (field_type f) v then Inr (Some v) else Inl ())"

fun zparse_fields ::
  "(string \<Rightarrow> bool) \<Rightarrow> zschema \<Rightarrow> (string \<Rightarrow> json option) \<Rightarrow> string list \<times> obj" where
  "zparse_fields isEmail [] inp = ([], [])"
| "zparse_fields isEmail ((k, f) # sch) inp =
     (let (issues, out) = zparse_fields isEmail sch inp in
      case zparse_field isEmail f (inp k) of
        Inl u \<Rightarrow> (k # issues, out)
      | Inr None \<Rightarrow> (issues, out)
      | Inr (Some v) \<Rightarrow> (issues, (k, v) # out))"

datatype error =
    ZodError "string list"
  | TypeError string
  | Error string
  | PrismaError string

definition zparse ::
  "(string \<Rightarrow> bool) \<Rightarrow> zschema \<Rightarrow> (string \<Rightarrow> json option) \<Rightarrow> error + obj" where
  "zparse isEmail sch inp =
     (case zparse_fields isEmail sch inp of
        ([], out) \<Rightarrow> Inr out
      | (k # ks, out) \<Rightarrow> Inl (ZodError (k # ks)))"


section \<open>Environment configuration (server/env.ts)\<close>





record app_config =
  app_name :: "json option"
  app_version :: "json option"
  app_port :: "int option"
  app_environment :: "json option"
  isProduction :: bool
  isDevelopment :: bool
  database_url :: json
  database_ssl :: bool
  database_poolSize :: "int option"
  sessionSecret :: "json option"
  corsOrigin :: "json option"
  requestTimeout :: "int option"
  bodyLimit :: "json option"

definition parseInt_field :: "obj \<Rightarrow> string \<Rightarrow> int option" where
  "parseInt_field env k = (case map_of env k of Some (JStr s) \<Rightarrow> parseInt s | _ \<Rightarrow> None)"

definition config :: "obj \<Rightarrow> app_config" where
  "config env =
     \<lparr> app_name = map_of env ''APP_NAME'',
       app_version = map_of env ''APP_VERSION'',
       app_port = parseInt_field env ''PORT'',
       app_environment = map_of env ''NODE_ENV'',
       isProduction = (map_of env ''NODE_ENV'' = Some (JStr ''production'')),
       isDevelopment = (map_of env ''NODE_ENV'' = Some (JStr ''development'')),
       database_url = js_or (map_of env ''DATABASE_URL'') (JStr ''''),
       database_ssl = (map_of env ''DATABASE_SSL'' = Some (JStr ''true'')),
       database_poolSize = parseInt_field env ''DATABASE_POOL_SIZE'',
       sessionSecret = map_of env ''SESSION_SECRET'',
       corsOrigin = map_of env ''CORS_ORIGIN'',
       requestTimeout = parseInt_field env ''REQUEST_TIMEOUT'',
       bodyLimit = map_of env ''BODY_LIMIT'' \<rparr>"






section \<open>Payload schemas (shared/types.ts)\<close>

definition insertUserSchema :: zschema where
  "insertUserSchema =
    [(''username'', Required ZString),
     (''password'', Required ZString),
     (''email'', Required ZEmail),
     (''role'', Default ZString (JStr ''student'')),
     (''isMaster'', Default ZBoolean (JBool False)),
     (''firstName'', Optional ZString),
     (''lastName'', Optional ZString),
     (''avatar'', Optional ZString),
     (''bio'', Optional ZString),
     (''xp'', Default ZNumber (JNum 0)),
     (''level'', Default ZNumber (JNum 1))]"



section \<open>The database client\<close>

text \<open>
  A table holds its rows in insertion order and the last value of its identifier
  sequence. A row is an object with an \<open>id\<close> property. The database is reachable or
  not; every query of an unreachable database throws.
\<close>

type_synonym row = obj

record table =
  rows :: "row list"
  seq :: int

record database =
  reachable :: bool
  user_t :: table
  course_t :: table
  classroom_t :: table
  schedule_t :: table
  staffRequest_t :: table
  masterRoleRequest_t :: table
  resignationRequest_t :: table

datatype dbwrite = Insert obj | Update int obj | Delete int

text \<open>
  What the sources leave open is a parameter of the run:
  \<^item> \<open>isEmail\<close>: the e-mail test of the validation library;
  \<^item> \<open>bcrypt_hash\<close>, \<open>bcrypt_compare\<close>: the password hashing library (with the salt
    this run draws);
  \<^item> \<open>related\<close>: the rows a query eager-loads under a relation name;
  \<^item> \<open>schema_rejects\<close>: the column types and referential constraints of the database
    schema, which may refuse a write to a model;
  \<^item> \<open>now\<close>, \<open>uptime\<close>, \<open>heapUsed\<close>, \<open>heapTotal\<close>: the clock and the process figures.
\<close>

record runtime =
  isEmail :: "string \<Rightarrow> bool"
  bcrypt_hash :: "string \<Rightarrow> string"
  bcrypt_compare :: "string \<Rightarrow> string \<Rightarrow> bool"
  related :: "string \<Rightarrow> database \<Rightarrow> row \<Rightarrow> json"
  schema_rejects :: "string \<Rightarrow> dbwrite \<Rightarrow> database \<Rightarrow> bool"
  now :: json
  uptime :: json
  heapUsed :: json
  heapTotal :: json

definition has_id :: "int \<Rightarrow> row \<Rightarrow> bool" where
  "has_id i r = (map_of r ''id'' = Some (JNum i))"

definition unreachable :: error where
  "unreachable = PrismaError ''P1001''"

definition invalid_argument :: error where
  "invalid_argument = PrismaError ''PrismaClientValidationError''"

definition unique_violation :: error where
  "unique_violation = PrismaError ''P2002''"

definition record_not_found :: error where
  "record_not_found = PrismaError ''P2025''"

definition include_rel :: "runtime \<Rightarrow> database \<Rightarrow> string list \<Rightarrow> row \<Rightarrow> row" where
  "include_rel rt d names r = r @ map (\<lambda>n. (n, related rt n d r)) names"

definition prisma_findMany :: "database \<Rightarrow> table \<Rightarrow> error + row list" where
  "prisma_findMany d t = (if reachable d then Inr (rows t) else Inl unreachable)"

definition prisma_findUnique :: "database \<Rightarrow> table \<Rightarrow> string \<Rightarrow> json \<Rightarrow> error + row option" where
  "prisma_findUnique d t col v =
     (if reachable d then Inr (find (\<lambda>r. map_of r col = Some v) (rows t))
      else Inl unreachable)"

text \<open>
  \<open>create\<close> draws the next identifier and appends the row; a value of a unique column
  (the identifier among them) that another row holds is a unique-constraint error.
\<close>

definition prisma_create ::
  "runtime \<Rightarrow> database \<Rightarrow> string \<Rightarrow> string list \<Rightarrow> table \<Rightarrow> obj \<Rightarrow> error + table \<times> row" where
  "prisma_create rt d model uniq t data =
     (if schema_rejects rt model (Insert data) d then Inl invalid_argument
      else if \<not> reachable d then Inl unreachable
      else
        let i = seq t + 1; r = (''id'', JNum i) # data in
        if list_ex (\<lambda>c. case map_of r c of
                           None \<Rightarrow> False
                         | Some v \<Rightarrow> list_ex (\<lambda>x. map_of x c = Some v) (rows t))
             (''id'' # uniq)
        then Inl unique_violation
        else Inr (t\<lparr>rows := rows t @ [r], seq := i\<rparr>, r))"

text \<open>\<open>update\<close> overwrites the given properties of the row; a missing row is an error.\<close>

definition prisma_update ::
  "runtime \<Rightarrow> database \<Rightarrow> string \<Rightarrow> string list \<Rightarrow> table \<Rightarrow> int \<Rightarrow> obj \<Rightarrow> error + table \<times> row" where
  "prisma_update rt d model uniq t i data =
     (if schema_rejects rt model (Update i data) d then Inl invalid_argument
      else if \<not> reachable d then Inl unreachable
      else
        case find (has_id i) (rows t) of
          None \<Rightarrow> Inl record_not_found
        | Some r \<Rightarrow>
            let r' = AList.merge r data in
            if list_ex (\<lambda>c. case map_of r' c of
                               None \<Rightarrow> False
                             | Some v \<Rightarrow>
                                 list_ex (\<lambda>x. \<not> has_id i x \<and> map_of x c = Some v) (rows t))
                 (''id'' # uniq)
            then Inl unique_violation
            else Inr (t\<lparr>rows := map (\<lambda>x. if has_id i x then r' else x) (rows t)\<rparr>, r'))"

text \<open>\<open>delete\<close> removes the row and returns it; a missing row is an error.\<close>

definition prisma_delete ::
  "runtime \<Rightarrow> database \<Rightarrow> string \<Rightarrow> table \<Rightarrow> int \<Rightarrow> error + table \<times> row" where
  "prisma_delete rt d model t i =
     (if schema_rejects rt model (Delete i) d then Inl invalid_argument
      else if \<not> reachable d then Inl unreachable
      else
        case find (has_id i) (rows t) of
          None \<Rightarrow> Inl record_not_found
        | Some r \<Rightarrow> Inr (t\<lparr>rows := filter (\<lambda>x. \<not> has_id i x) (rows t)\<rparr>, r))"

text \<open>
  A \<open>where: { id }\<close> whose identifier is \<open>NaN\<close> (\<open>None\<close>) is refused by the client before
  any query is sent.
\<close>

definition find_by_id ::
  "database \<Rightarrow> table \<Rightarrow> int option \<Rightarrow> error + row option" where
  "find_by_id d t ident =
     (case ident of
        None \<Rightarrow> Inl invalid_argument
      | Some i \<Rightarrow> prisma_findUnique d t ''id'' (JNum i))"

definition included :: "runtime \<Rightarrow> database \<Rightarrow> string list \<Rightarrow> error + row option \<Rightarrow> error + row option" where
  "included rt d names res = map_sum id (map_option (include_rel rt d names)) res"

section \<open>Data access (server/storage.ts)\<close>

text \<open>
  A storage function returns \<open>Inl\<close> the error it throws, or \<open>Inr\<close> its result; one that
  writes returns the new database with it. Identifiers arrive as the number
  \<open>parseInt\<close> produced (\<open>None\<close> for \<open>NaN\<close>).
\<close>

subsection \<open>Users\<close>

definition getUsers :: "database \<Rightarrow> error + row list" where
  "getUsers d = map_sum id rev (prisma_findMany d (user_t d))"


text \<open>
  The handlers pass the property they read from the payload; only a string is a valid
  argument of the query.
\<close>

definition getUserByEmail :: "database \<Rightarrow> json option \<Rightarrow> error + row option" where
  "getUserByEmail d email =
     (case email of
        Some (JStr e) \<Rightarrow> prisma_findUnique d (user_t d) ''email'' (JStr e)
      | _ \<Rightarrow> Inl invalid_argument)"

definition createUser :: "runtime \<Rightarrow> database \<Rightarrow> obj \<Rightarrow> error + database \<times> row" where
  "createUser rt d userData =
     (case zparse (isEmail rt) insertUserSchema (map_of userData) of
        Inl e \<Rightarrow> Inl e
      | Inr validatedData \<Rightarrow>
          (case prisma_create rt d ''user'' [''username'', ''email''] (user_t d) validatedData of
             Inl e \<Rightarrow> Inl e
           | Inr (t, r) \<Rightarrow> Inr (d\<lparr>user_t := t\<rparr>, r)))"

subsection \<open>Courses\<close>


definition getCourseById :: "runtime \<Rightarrow> database \<Rightarrow> int option \<Rightarrow> error + row option" where
  "getCourseById rt d ident =
     included rt d [''mentor'', ''enrollments'', ''reviews'', ''lessons'']
       (find_by_id d (course_t d) ident)"



definition deleteCourse :: "runtime \<Rightarrow> database \<Rightarrow> int option \<Rightarrow> error + database \<times> row" where
  "deleteCourse rt d ident =
     (case ident of
        None \<Rightarrow> Inl invalid_argument
      | Some i \<Rightarrow>
          (case prisma_delete rt d ''course'' (course_t d) i of
             Inl e \<Rightarrow> Inl e
           | Inr (t, r) \<Rightarrow> Inr (d\<lparr>course_t := t\<rparr>, r)))"

subsection \<open>Classrooms\<close>


definition getClassroomById :: "runtime \<Rightarrow> database \<Rightarrow> int option \<Rightarrow> error + row option" where
  "getClassroomById rt d ident =
     included rt d [''master'', ''memberships'', ''liveSessions'', ''schedules'']
       (find_by_id d (classroom_t d) ident)"



definition deleteClassroom :: "runtime \<Rightarrow> database \<Rightarrow> int option \<Rightarrow> error + database \<times> row" where
  "deleteClassroom rt d ident =
     (case ident of
        None \<Rightarrow> Inl invalid_argument
      | Some i \<Rightarrow>
          (case prisma_delete rt d ''classroom'' (classroom_t d) i of
             Inl e \<Rightarrow> Inl e
           | Inr (t, r) \<Rightarrow> Inr (d\<lparr>classroom_t := t\<rparr>, r)))"

text \<open>
  The classroom operations of the module are \<open>getClassrooms\<close>, \<open>getClassroomById\<close>,
  \<open>createClassroom\<close>, \<open>updateClassroom\<close> and \<open>deleteClassroom\<close>. The module exports no
  \<open>getClassroomBySlug\<close>, and its closing \<open>export * from '@prisma/client'\<close> adds none:
  the property of the module namespace is \<open>undefined\<close>.
\<close>

definition storage_getClassroomBySlug ::
  "(runtime \<Rightarrow> database \<Rightarrow> string \<Rightarrow> error + row option) option" where
  "storage_getClassroomBySlug = None"

subsection \<open>Schedules\<close>

definition getScheduleById :: "runtime \<Rightarrow> database \<Rightarrow> int option \<Rightarrow> error + row option" where
  "getScheduleById rt d ident =
     included rt d [''classroom'', ''instructor'', ''enrollments'']
       (find_by_id d (schedule_t d) ident)"

definition deleteSchedule :: "runtime \<Rightarrow> database \<Rightarrow> int option \<Rightarrow> error + database \<times> row" where
  "deleteSchedule rt d ident =
     (case ident of
        None \<Rightarrow> Inl invalid_argument
      | Some i \<Rightarrow>
          (case prisma_delete rt d ''schedule'' (schedule_t d) i of
             Inl e \<Rightarrow> Inl e
           | Inr (t, r) \<Rightarrow> Inr (d\<lparr>schedule_t := t\<rparr>, r)))"

subsection \<open>Staff, master-role and resignation requests\<close>

definition getStaffRequestById :: "runtime \<Rightarrow> database \<Rightarrow> int option \<Rightarrow> error + row option" where
  "getStaffRequestById rt d ident =
     included rt d [''mentor'', ''classroom'', ''reviewer'']
       (find_by_id d (staffRequest_t d) ident)"

definition updateStaffRequest ::
  "runtime \<Rightarrow> database \<Rightarrow> int option \<Rightarrow> obj \<Rightarrow> error + database \<times> row" where
  "updateStaffRequest rt d ident requestData =
     (let updateData =
        (if truthy (map_of requestData ''status'') \<and> truthy (map_of requestData ''reviewedBy'')
         then spread_set requestData ''reviewedAt'' (now rt)
         else requestData)
      in case ident of
        None \<Rightarrow> Inl invalid_argument
      | Some i \<Rightarrow>
          (case prisma_update rt d ''staffRequest'' [] (staffRequest_t d) i updateData of
             Inl e \<Rightarrow> Inl e
           | Inr (t, r) \<Rightarrow>
               let d' = d\<lparr>staffRequest_t := t\<rparr>
               in Inr (d', include_rel rt d' [''mentor'', ''classroom'', ''reviewer''] r)))"

definition getMasterRoleRequestById ::
  "runtime \<Rightarrow> database \<Rightarrow> int option \<Rightarrow> error + row option" where
  "getMasterRoleRequestById rt d ident =
     included rt d [''mentor'', ''reviewer''] (find_by_id d (masterRoleRequest_t d) ident)"

definition updateMasterRoleRequest ::
  "runtime \<Rightarrow> database \<Rightarrow> int option \<Rightarrow> obj \<Rightarrow> error + database \<times> row" where
  "updateMasterRoleRequest rt d ident requestData =
     (let decided =
        (if map_of requestData ''status'' = Some (JStr ''approved'')
         then spread_set requestData ''approvedAt'' (now rt)
         else if map_of requestData ''status'' = Some (JStr ''rejected'')
         then spread_set requestData ''rejectedAt'' (now rt)
         else requestData);
          updateData =
        (if truthy (map_of requestData ''reviewedBy'')
         then spread_set decided ''reviewedAt'' (now rt)
         else decided)
      in case ident of
        None \<Rightarrow> Inl invalid_argument
      | Some i \<Rightarrow>
          (case prisma_update rt d ''masterRoleRequest'' [] (masterRoleRequest_t d) i updateData of
             Inl e \<Rightarrow> Inl e
           | Inr (t, r) \<Rightarrow>
               let d' = d\<lparr>masterRoleRequest_t := t\<rparr>
               in Inr (d', include_rel rt d' [''mentor'', ''reviewer''] r)))"

definition getResignationRequestById ::
  "runtime \<Rightarrow> database \<Rightarrow> int option \<Rightarrow> error + row option" where
  "getResignationRequestById rt d ident =
     included rt d [''mentor'', ''reviewer''] (find_by_id d (resignationRequest_t d) ident)"

definition updateResignationRequest ::
  "runtime \<Rightarrow> database \<Rightarrow> int option \<Rightarrow> obj \<Rightarrow> error + database \<times> row" where
  "updateResignationRequest rt d ident requestData =
     (let updateData =
        (if truthy (map_of requestData ''reviewedBy'')
         then spread_set requestData ''reviewedAt'' (now rt)
         else requestData)
      in case ident of
        None \<Rightarrow> Inl invalid_argument
      | Some i \<Rightarrow>
          (case prisma_update rt d ''resignationRequest'' [] (resignationRequest_t d) i updateData of
             Inl e \<Rightarrow> Inl e
           | Inr (t, r) \<Rightarrow>
               let d' = d\<lparr>resignationRequest_t := t\<rparr>
               in Inr (d', include_rel rt d' [''mentor'', ''reviewer''] r)))"

section \<open>Request handlers (server/routes.ts)\<close>

text \<open>
  A handler returns the response it sends and the database it leaves. Every handler
  body is a \<open>try\<close> block: an error thrown inside it is caught and answered.
\<close>

record response =
  status :: nat
  body :: json

definition respond :: "nat \<Rightarrow> json \<Rightarrow> response" where
  "respond code b = \<lparr> status = code, body = b \<rparr>"

definition error_body :: "string \<Rightarrow> json" where
  "error_body msg = JObj [(''error'', JStr msg)]"

definition internal_error :: response where
  "internal_error = respond 500 (error_body ''Internal server error'')"

text \<open>The \<open>catch\<close> clause of a validated endpoint.\<close>

definition caught_validated :: "string \<Rightarrow> error \<Rightarrow> response" where
  "caught_validated msg e =
     (case e of
        ZodError paths \<Rightarrow>
          respond 400 (JObj [(''error'', JStr msg), (''details'', JArr (map JStr paths))])
      | _ \<Rightarrow> internal_error)"

definition hashPassword :: "runtime \<Rightarrow> json option \<Rightarrow> error + string" where
  "hashPassword rt password =
     (case password of
        Some (JStr p) \<Rightarrow> Inr (bcrypt_hash rt p)
      | _ \<Rightarrow> Inl (Error ''data must be a string or Buffer and salt must either be a salt string or a number of rounds''))"

definition verifyPassword :: "runtime \<Rightarrow> json option \<Rightarrow> json option \<Rightarrow> error + bool" where
  "verifyPassword rt password hash =
     (case (password, hash) of
        (Some (JStr p), Some (JStr h)) \<Rightarrow> Inr (bcrypt_compare rt p h)
      | _ \<Rightarrow> Inl (Error ''data and hash must be strings''))"

subsection \<open>Probes\<close>

definition health_route :: "app_config \<Rightarrow> runtime \<Rightarrow> database \<Rightarrow> response \<times> database" where
  "health_route cfg rt d =
     (respond 200
        (JObj (literal
          [(''status'', Some (JStr ''healthy'')),
           (''timestamp'', Some (now rt)),
           (''environment'', app_environment cfg),
           (''version'', app_version cfg),
           (''uptime'', Some (uptime rt)),
           (''memory'', Some (JObj [(''used'', heapUsed rt), (''total'', heapTotal rt)]))])),
      d)"

definition ready_route :: "database \<Rightarrow> response \<times> database" where
  "ready_route d =
     (case getUsers d of
        Inl e \<Rightarrow> (respond 503 (JObj [(''status'', JStr ''not ready'')]), d)
      | Inr users \<Rightarrow> (respond 200 (JObj [(''status'', JStr ''ready'')]), d))"

subsection \<open>Users and authentication\<close>




text \<open>
  The object the registration handler validates:
  \<open>const { role, ...userData } = req.body\<close>, then \<open>{ ...userData, role: role || "student" }\<close>.
\<close>

definition registration_payload :: "obj \<Rightarrow> obj" where
  "registration_payload reqBody =
     (let role = map_of reqBody ''role''; userData = rest_without ''role'' reqBody
      in spread_set userData ''role'' (js_or role (JStr ''student'')))"

definition register_route :: "runtime \<Rightarrow> database \<Rightarrow> obj \<Rightarrow> response \<times> database" where
  "register_route rt d reqBody =
     (case zparse (isEmail rt) insertUserSchema (map_of (registration_payload reqBody)) of
        Inl e \<Rightarrow> (caught_validated ''Invalid registration data'' e, d)
      | Inr validatedData \<Rightarrow>
          (case getUserByEmail d (map_of validatedData ''email'') of
             Inl e \<Rightarrow> (caught_validated ''Invalid registration data'' e, d)
           | Inr (Some existingUser) \<Rightarrow>
               (respond 409 (error_body ''User already exists with this email''), d)
           | Inr None \<Rightarrow>
               (case hashPassword rt (map_of validatedData ''password'') of
                  Inl e \<Rightarrow> (caught_validated ''Invalid registration data'' e, d)
                | Inr hashedPassword \<Rightarrow>
                    (case createUser rt d
                            (spread_set validatedData ''password'' (JStr hashedPassword)) of
                       Inl e \<Rightarrow> (caught_validated ''Invalid registration data'' e, d)
                     | Inr (d', user) \<Rightarrow>
                         (respond 201
                            (JObj [(''message'', JStr ''User registered successfully''),
                                   (''user'', JObj (rest_without ''password'' user))]),
                          d')))))"

definition login_route :: "runtime \<Rightarrow> database \<Rightarrow> obj \<Rightarrow> response \<times> database" where
  "login_route rt d reqBody =
     (let email = map_of reqBody ''email''; password = map_of reqBody ''password'' in
      if \<not> truthy email \<or> \<not> truthy password
      then (respond 400 (error_body ''Email and password are required''), d)
      else
        case getUserByEmail d email of
          Inl e \<Rightarrow> (internal_error, d)
        | Inr None \<Rightarrow> (respond 401 (error_body ''Invalid credentials''), d)
        | Inr (Some user) \<Rightarrow>
            (case verifyPassword rt password (map_of user ''password'') of
               Inl e \<Rightarrow> (internal_error, d)
             | Inr isValidPassword \<Rightarrow>
                 if \<not> isValidPassword
                 then (respond 401 (error_body ''Invalid credentials''), d)
                 else (respond 200
                         (JObj [(''message'', JStr ''Login successful''),
                                (''user'', JObj (rest_without ''password'' user))]),
                       d)))"

subsection \<open>Courses\<close>


definition get_course_route :: "runtime \<Rightarrow> database \<Rightarrow> string \<Rightarrow> response \<times> database" where
  "get_course_route rt d idParam =
     (case getCourseById rt d (parseInt idParam) of
        Inl e \<Rightarrow> (internal_error, d)
      | Inr None \<Rightarrow> (respond 404 (error_body ''Course not found''), d)
      | Inr (Some course) \<Rightarrow> (respond 200 (JObj course), d))"



definition delete_course_route :: "runtime \<Rightarrow> database \<Rightarrow> string \<Rightarrow> response \<times> database" where
  "delete_course_route rt d idParam =
     (case deleteCourse rt d (parseInt idParam) of
        Inl e \<Rightarrow> (internal_error, d)
      | Inr (d', course) \<Rightarrow>
          (respond 200 (JObj [(''message'', JStr ''Course deleted successfully'')]), d'))"

subsection \<open>Classrooms\<close>


text \<open>
  The slug handler calls \<open>storage.getClassroomBySlug(req.params.slug)\<close> inside its
  \<open>try\<close> block. Calling a property that is \<open>undefined\<close> throws a \<open>TypeError\<close>, which
  the \<open>catch\<close> clause answers.
\<close>

definition get_classroom_by_slug_route ::
  "runtime \<Rightarrow> database \<Rightarrow> string \<Rightarrow> response \<times> database" where
  "get_classroom_by_slug_route rt d slug =
     (case storage_getClassroomBySlug of
        None \<Rightarrow> (internal_error, d)
      | Some getClassroomBySlug \<Rightarrow>
          (case getClassroomBySlug rt d slug of
             Inl e \<Rightarrow> (internal_error, d)
           | Inr None \<Rightarrow> (respond 404 (error_body ''Academy not found''), d)
           | Inr (Some classroom) \<Rightarrow> (respond 200 (JObj classroom), d)))"

definition get_classroom_route :: "runtime \<Rightarrow> database \<Rightarrow> string \<Rightarrow> response \<times> database" where
  "get_classroom_route rt d idParam =
     (case getClassroomById rt d (parseInt idParam) of
        Inl e \<Rightarrow> (internal_error, d)
      | Inr None \<Rightarrow> (respond 404 (error_body ''Classroom not found''), d)
      | Inr (Some classroom) \<Rightarrow> (respond 200 (JObj classroom), d))"



definition delete_classroom_route ::
  "runtime \<Rightarrow> database \<Rightarrow> string \<Rightarrow> response \<times> database" where
  "delete_classroom_route rt d idParam =
     (case deleteClassroom rt d (parseInt idParam) of
        Inl e \<Rightarrow> (internal_error, d)
      | Inr (d', classroom) \<Rightarrow>
          (respond 200 (JObj [(''message'', JStr ''Classroom deleted successfully'')]), d'))"

subsection \<open>Schedules\<close>

definition get_schedule_route :: "runtime \<Rightarrow> database \<Rightarrow> string \<Rightarrow> response \<times> database" where
  "get_schedule_route rt d idParam =
     (case getScheduleById rt d (parseInt idParam) of
        Inl e \<Rightarrow> (internal_error, d)
      | Inr None \<Rightarrow> (respond 404 (error_body ''Schedule not found''), d)
      | Inr (Some schedule) \<Rightarrow> (respond 200 (JObj schedule), d))"

definition delete_schedule_route ::
  "runtime \<Rightarrow> database \<Rightarrow> string \<Rightarrow> response \<times> database" where
  "delete_schedule_route rt d idParam =
     (case deleteSchedule rt d (parseInt idParam) of
        Inl e \<Rightarrow> (internal_error, d)
      | Inr (d', schedule) \<Rightarrow>
          (respond 200 (JObj [(''message'', JStr ''Schedule deleted successfully'')]), d'))"

subsection \<open>Request reviews\<close>

definition patch_staff_request_status_route ::
  "runtime \<Rightarrow> database \<Rightarrow> string \<Rightarrow> obj \<Rightarrow> response \<times> database" where
  "patch_staff_request_status_route rt d idParam reqBody =
     (case updateStaffRequest rt d (parseInt idParam)
             (literal [(''status'', map_of reqBody ''status''),
                       (''reviewedBy'', map_of reqBody ''reviewedBy''),
                       (''adminNotes'', map_of reqBody ''adminNotes'')]) of
        Inl e \<Rightarrow> (internal_error, d)
      | Inr (d', request) \<Rightarrow> (respond 200 (JObj request), d'))"

definition patch_master_role_request_status_route ::
  "runtime \<Rightarrow> database \<Rightarrow> string \<Rightarrow> obj \<Rightarrow> response \<times> database" where
  "patch_master_role_request_status_route rt d idParam reqBody =
     (case updateMasterRoleRequest rt d (parseInt idParam)
             (literal [(''status'', map_of reqBody ''status''),
                       (''reviewedBy'', map_of reqBody ''reviewedBy''),
                       (''adminNotes'', map_of reqBody ''adminNotes'')]) of
        Inl e \<Rightarrow> (internal_error, d)
      | Inr (d', request) \<Rightarrow> (respond 200 (JObj request), d'))"

definition patch_resignation_request_status_route ::
  "runtime \<Rightarrow> database \<Rightarrow> string \<Rightarrow> obj \<Rightarrow> response \<times> database" where
  "patch_resignation_request_status_route rt d idParam reqBody =
     (case updateResignationRequest rt d (parseInt idParam)
             (literal [(''status'', map_of reqBody ''status''),
                       (''reviewedBy'', map_of reqBody ''reviewedBy''),
                       (''masterNotes'', map_of reqBody ''masterNotes'')]) of
        Inl e \<Rightarrow> (internal_error, d)
      | Inr (d', request) \<Rightarrow> (respond 200 (JObj request), d'))"

section \<open>Routing\<close>

text \<open>The routes of the handlers above, with the path parameter and the body they read.\<close>

datatype request =
    GET_health
  | GET_ready
  | GET_user string
  | GET_users
  | POST_users obj
  | POST_register obj
  | POST_login obj
  | GET_courses
  | GET_course string
  | POST_courses obj
  | PATCH_course string obj
  | DELETE_course string
  | GET_classrooms
  | GET_classroom_by_slug string
  | GET_classroom string
  | POST_classrooms obj
  | PATCH_classroom string obj
  | DELETE_classroom string
  | GET_schedule string
  | DELETE_schedule string
  | PATCH_staff_request_status string obj
  | PATCH_master_role_request_status string obj
  | PATCH_resignation_request_status string obj


section \<open>The status-code policy of the specification\<close>












section \<open>Sample data\<close>

text \<open>
  A run and a database to evaluate the handlers on. The sample run accepts every write,
  loads no relation, and stands a prefix in for the password hash.
\<close>

definition empty_table :: table where
  "empty_table = \<lparr> rows = [], seq = 0 \<rparr>"

definition example_runtime :: runtime where
  "example_runtime =
     \<lparr> isEmail = (\<lambda>s. CHR ''@'' \<in> set s),
       bcrypt_hash = (\<lambda>p. ''$2b$10$'' @ p),
       bcrypt_compare = (\<lambda>p h. h = ''$2b$10$'' @ p),
       related = (\<lambda>name d r. JNull),
       schema_rejects = (\<lambda>model w d. False),
       now = JStr ''2025-01-01T00:00:00.000Z'',
       uptime = JNum 12,
       heapUsed = JNum 40,
       heapTotal = JNum 64 \<rparr>"

definition example_database :: database where
  "example_database =
     \<lparr> reachable = True,
       user_t = \<lparr> rows = [[(''id'', JNum 1), (''username'', JStr ''ann''),
                               (''password'', JStr ''$2b$10$secret''),
                               (''email'', JStr ''ann@example.org''),
                               (''role'', JStr ''student'')]], seq = 1 \<rparr>,
       course_t = \<lparr> rows = [[(''id'', JNum 1), (''title'', JStr ''Piano''),
                                 (''category'', JStr ''music''), (''level'', JStr ''beginner'')]],
                     seq = 1 \<rparr>,
       classroom_t = \<lparr> rows = [[(''id'', JNum 1), (''title'', JStr ''Alpha''),
                                    (''customSlug'', JStr ''alpha'')],
                                   [(''id'', JNum 2), (''title'', JStr ''Beta''),
                                    (''customSlug'', JStr ''beta'')]], seq = 2 \<rparr>,
       schedule_t = \<lparr> rows = [[(''id'', JNum 1), (''title'', JStr ''Monday'')]], seq = 1 \<rparr>,
       staffRequest_t = \<lparr> rows = [[(''id'', JNum 1), (''mentorId'', JNum 1),
                                       (''status'', JStr ''pending'')]], seq = 1 \<rparr>,
       masterRoleRequest_t = \<lparr> rows = [[(''id'', JNum 1), (''mentorId'', JNum 1),
                                            (''status'', JStr ''pending'')]], seq = 1 \<rparr>,
       resignationRequest_t = \<lparr> rows = [[(''id'', JNum 1), (''mentorId'', JNum 1),
                                             (''status'', JStr ''pending'')]], seq = 1 \<rparr> \<rparr>"

definition example_config :: app_config where
  "example_config = config [(''NODE_ENV'', JStr ''production''), (''APP_VERSION'', JStr ''1.0.0'')]"

definition register_bob :: obj where
  "register_bob = [(''email'', JStr ''bob@example.org''), (''username'', JStr ''bob''),
                   (''password'', JStr ''pw'')]"

definition login_ann :: obj where
  "login_ann = [(''email'', JStr ''ann@example.org''), (''password'', JStr ''secret'')]"

definition review_approve :: obj where
  "review_approve = [(''status'', JStr ''approved''), (''reviewedBy'', JNum 1)]"


definition register_ann_incomplete :: obj where
  "register_ann_incomplete = [(''email'', JStr ''ann@example.org'')]"

definition register_ann_again :: obj where
  "register_ann_again = [(''email'', JStr ''ann@example.org''), (''username'', JStr ''ann2''),
                         (''password'', JStr ''pw'')]"






section \<open>Properties of schema validation\<close>

lemma zparse_fields_issues:
  "fst (zparse_fields E sch inp) =
     map fst (filter (\<lambda>kf. isl (zparse_field E (snd kf) (inp (fst kf)))) sch)"
proof (induction sch)
  case Nil
  then show ?case by simp
next
  case (Cons a sch)
  obtain k f where a: "a = (k, f)" by (cases a)
  obtain iss out where r: "zparse_fields E sch inp = (iss, out)" by (cases "zparse_fields E sch inp")
  from Cons r a show ?case
    by (cases "zparse_field E f (inp k)") (auto split: option.splits)
qed

lemma zparse_fields_keys:
  "fst ` set (snd (zparse_fields E sch inp)) \<subseteq> fst ` set sch"
proof (induction sch)
  case Nil
  then show ?case by simp
next
  case (Cons a sch)
  obtain k f where a: "a = (k, f)" by (cases a)
  obtain iss out where r: "zparse_fields E sch inp = (iss, out)" by (cases "zparse_fields E sch inp")
  from Cons r a show ?case
    by (cases "zparse_field E f (inp k)") (auto split: option.splits)
qed

lemma zparse_fields_out:
  "distinct (map fst sch) \<Longrightarrow> map_of sch k = Some f \<Longrightarrow>
   map_of (snd (zparse_fields E sch inp)) k =
     (case zparse_field E f (inp k) of Inl u \<Rightarrow> None | Inr r \<Rightarrow> r)"
proof (induction sch)
  case Nil
  then show ?case by simp
next
  case (Cons a sch)
  obtain k' f' where a: "a = (k', f')" by (cases a)
  obtain iss out where r: "zparse_fields E sch inp = (iss, out)" by (cases "zparse_fields E sch inp")
  show ?case
  proof (cases "k = k'")
    case True
    with Cons.prems a have f: "f' = f" by simp
    from Cons.prems a have "k' \<notin> fst ` set sch" by simp
    with zparse_fields_keys [of E sch inp] r have "k' \<notin> fst ` set out" by auto
    then have "map_of out k' = None" by (simp add: map_of_eq_None_iff)
    with True a f r show ?thesis
      by (cases "zparse_field E f (inp k')") (auto split: option.splits)
  next
    case False
    with Cons a have "map_of out k =
      (case zparse_field E f (inp k) of Inl u \<Rightarrow> None | Inr r \<Rightarrow> r)" using r by simp
    with False a r show ?thesis
      by (cases "zparse_field E f' (inp k')") (auto split: option.splits)
  qed
qed


lemma zparse_Inl:
  assumes "(k, f) \<in> set sch" and "isl (zparse_field E f (inp k))"
  shows "\<exists>ks. zparse E sch inp = Inl (ZodError ks)"
proof -
  from assms have "k \<in> set (fst (zparse_fields E sch inp))"
    unfolding zparse_fields_issues by force
  then obtain k' ks where "fst (zparse_fields E sch inp) = k' # ks"
    by (cases "fst (zparse_fields E sch inp)") auto
  then show ?thesis
    by (cases "zparse_fields E sch inp") (simp add: zparse_def)
qed


lemma zparse_Inr_fields:
  assumes "zparse E sch inp = Inr out"
  shows "out = snd (zparse_fields E sch inp)" and "fst (zparse_fields E sch inp) = []"
  using assms by (auto simp: zparse_def split: prod.splits list.splits)

lemma zparse_Inr_lookup:
  assumes z: "zparse E sch inp = Inr out"
    and dist: "distinct (map fst sch)"
    and f: "map_of sch k = Some f"
  shows "zparse_field E f (inp k) = Inr (map_of out k)"
proof -
  from f have mem: "(k, f) \<in> set sch" by (rule map_of_SomeD)
  have "\<not> isl (zparse_field E f (inp k))"
  proof
    assume "isl (zparse_field E f (inp k))"
    with mem obtain ks where "zparse E sch inp = Inl (ZodError ks)"
      using zparse_Inl by blast
    with z show False by simp
  qed
  then obtain r where r: "zparse_field E f (inp k) = Inr r"
    by (cases "zparse_field E f (inp k)") auto
  from zparse_fields_out [OF dist f, of E inp] r zparse_Inr_fields(1) [OF z]
  show ?thesis by simp
qed

lemma zparse_Inr_keys:
  assumes "zparse E sch inp = Inr out"
  shows "fst ` set out \<subseteq> fst ` set sch"
  using zparse_Inr_fields(1) [OF assms] zparse_fields_keys [of E sch inp] by simp


lemma zparse_cases:
  obtains (valid) v where "zparse E sch inp = Inr v"
  | (invalid) ks where "zparse E sch inp = Inl (ZodError ks)"
  by (cases "zparse_fields E sch inp"; cases "fst (zparse_fields E sch inp)")
     (auto simp: zparse_def)

section \<open>Properties of the data access layer\<close>

lemma insertUserSchema_distinct: "distinct (map fst insertUserSchema)"
  by (simp add: insertUserSchema_def)

lemma validated_user_password:
  assumes "zparse E insertUserSchema inp = Inr out"
  shows "\<exists>p. map_of out ''password'' = Some (JStr p)"
proof -
  have "map_of insertUserSchema ''password'' = Some (Required ZString)"
    by (simp add: insertUserSchema_def)
  from zparse_Inr_lookup [OF assms insertUserSchema_distinct this]
  show ?thesis
    by (cases "inp ''password''"; cases "map_of out ''password''")
       (auto split: if_splits elim: is_string.elims)
qed

lemma validated_user_email:
  assumes "zparse E insertUserSchema inp = Inr out"
  shows "\<exists>e. inp ''email'' = Some (JStr e) \<and> map_of out ''email'' = Some (JStr e) \<and> E e"
proof -
  have "map_of insertUserSchema ''email'' = Some (Required ZEmail)"
    by (simp add: insertUserSchema_def)
  from zparse_Inr_lookup [OF assms insertUserSchema_distinct this]
  show ?thesis
    by (cases "inp ''email''"; cases "map_of out ''email''")
       (auto split: if_splits json.splits)
qed

lemma map_of_rest_without:
  "map_of (rest_without k a) k' = (if k' = k then None else map_of a k')"
  by (simp add: rest_without_def delete_conv')

lemma map_of_spread_set:
  "map_of (spread_set a k v) k' = (if k' = k then Some v else map_of a k')"
  by (simp add: spread_set_def update_conv')

lemma prisma_create_Inr:
  assumes "prisma_create rt d model uniq t data = Inr (t', r)"
  shows "r = (''id'', JNum (seq t + 1)) # data"
    and "rows t' = rows t @ [r]"
    and "reachable d"
    and "\<forall>x\<in>set (rows t). map_of x ''id'' \<noteq> Some (JNum (seq t + 1))"
  using assms
  by (auto simp: prisma_create_def Let_def list_ex_iff split: if_splits)

lemma createUser_Inr:
  assumes "createUser rt d userData = Inr (d', user)"
  shows "\<exists>v. zparse (isEmail rt) insertUserSchema (map_of userData) = Inr v \<and>
           user = (''id'', JNum (seq (user_t d) + 1)) # v \<and>
           rows (user_t d') = rows (user_t d) @ [user]"
  using assms
  by (auto simp: createUser_def split: sum.splits dest: prisma_create_Inr)

lemma register_route_201:
  assumes "register_route rt d reqBody = (resp, d')" and "status resp = 201"
  shows "\<exists>v hp user.
     zparse (isEmail rt) insertUserSchema (map_of (registration_payload reqBody)) = Inr v \<and>
     getUserByEmail d (map_of v ''email'') = Inr None \<and>
     hashPassword rt (map_of v ''password'') = Inr hp \<and>
     createUser rt d (spread_set v ''password'' (JStr hp)) = Inr (d', user) \<and>
     resp = respond 201
        (JObj [(''message'', JStr ''User registered successfully''),
               (''user'', JObj (rest_without ''password'' user))])"
proof -
  have s: "status (caught_validated m e) \<noteq> 201" for m e
    by (cases e) (simp_all add: caught_validated_def internal_error_def respond_def)
  from assms s show ?thesis
    unfolding register_route_def
    by (simp add: respond_def split: sum.splits option.splits prod.splits) force+
qed

lemma login_route_200:
  assumes "login_route rt d reqBody = (resp, d')" and "status resp = 200"
  shows "\<exists>user.
     getUserByEmail d (map_of reqBody ''email'') = Inr (Some user) \<and>
     verifyPassword rt (map_of reqBody ''password'') (map_of user ''password'') = Inr True \<and>
     d' = d \<and>
     resp = respond 200
        (JObj [(''message'', JStr ''Login successful''),
               (''user'', JObj (rest_without ''password'' user))])"
  using assms unfolding login_route_def Let_def
  by (simp add: respond_def internal_error_def split: if_splits sum.splits option.splits) force+

lemma status_internal_error: "status internal_error = 500"
  by (simp add: internal_error_def respond_def)

lemma find_has_id_filter: "find (has_id i) (filter (\<lambda>x. \<not> has_id i x) rs) = None"
  by (simp add: find_None_iff)

lemma prisma_delete_Inr_iff:
  "(\<exists>t' r. prisma_delete rt d model t i = Inr (t', r)) \<longleftrightarrow>
     \<not> schema_rejects rt model (Delete i) d \<and> reachable d \<and> find (has_id i) (rows t) \<noteq> None"
  by (auto simp: prisma_delete_def split: option.splits)

lemma prisma_delete_Inr:
  assumes "prisma_delete rt d model t i = Inr (t', r)"
  shows "reachable d" and "find (has_id i) (rows t') = None"
  using assms
  by (auto simp: prisma_delete_def find_has_id_filter split: if_splits option.splits)

lemma prisma_delete_absent:
  assumes "find (has_id i) (rows t) = None"
  shows "\<exists>e. prisma_delete rt d model t i = Inl e"
  using assms by (simp add: prisma_delete_def)

lemma find_by_id_absent:
  assumes "reachable d" and "find (has_id i) (rows t) = None"
  shows "find_by_id d t (Some i) = Inr None"
proof -
  have "has_id i = (\<lambda>r. map_of r ''id'' = Some (JNum i))"
    by (rule ext) (simp add: has_id_def)
  with assms show ?thesis by (simp add: find_by_id_def prisma_findUnique_def)
qed


lemma find_map_replace:
  assumes "find P xs = Some r" and "P r'"
  shows "find P (map (\<lambda>x. if P x then r' else x) xs) = Some r'"
  using assms by (induction xs) (auto split: if_splits)

lemma prisma_update_Inr:
  assumes "prisma_update rt d model uniq t i data = Inr (t', r')"
  shows "\<exists>r. find (has_id i) (rows t) = Some r \<and> r' = AList.merge r data \<and>
           rows t' = map (\<lambda>x. if has_id i x then r' else x) (rows t) \<and> reachable d"
  using assms
  by (auto simp: prisma_update_def Let_def split: if_splits option.splits)

lemma prisma_update_stored:
  assumes u: "prisma_update rt d model uniq t i data = Inr (t', r')"
    and noid: "map_of data ''id'' = None"
  shows "find (has_id i) (rows t') = Some r'"
    and "\<forall>k v. map_of data k = Some v \<longrightarrow> map_of r' k = Some v"
proof -
  from prisma_update_Inr [OF u] obtain r where r: "find (has_id i) (rows t) = Some r"
    and r': "r' = AList.merge r data"
    and rows: "rows t' = map (\<lambda>x. if has_id i x then r' else x) (rows t)" by blast
  from r have "has_id i r" by (auto simp: find_Some_iff)
  with noid r' have "has_id i r'"
    by (simp add: has_id_def merge_conv' map_add_def)
  with r rows show "find (has_id i) (rows t') = Some r'"
    by (simp add: find_map_replace)
  from r' show "\<forall>k v. map_of data k = Some v \<longrightarrow> map_of r' k = Some v"
    by (simp add: merge_conv')
qed

lemma prisma_update_succeeds:
  assumes "find (has_id i) (rows t) = Some r" and "reachable d"
    and "\<not> schema_rejects rt model (Update i data) d"
    and "map_of data ''id'' = None"
  shows "\<exists>t' r'. prisma_update rt d model [] t i data = Inr (t', r')"
proof -
  from assms(1) have "has_id i r" by (auto simp: find_Some_iff)
  with assms(4) have "map_of (AList.merge r data) ''id'' = Some (JNum i)"
    by (simp add: has_id_def merge_conv' map_add_def)
  then have "\<not> list_ex (\<lambda>c. case map_of (AList.merge r data) c of None \<Rightarrow> False
      | Some v \<Rightarrow> list_ex (\<lambda>x. \<not> has_id i x \<and> map_of x c = Some v) (rows t)) [''id'']"
    by (simp add: list_ex_iff has_id_def)
  with assms show ?thesis
    by (simp add: prisma_update_def Let_def)
qed




lemma registration_payload_email:
  "map_of (registration_payload reqBody) ''email'' = map_of reqBody ''email''"
  by (simp add: registration_payload_def Let_def map_of_spread_set map_of_rest_without)

lemma getUserByEmail_found:
  assumes "reachable d" and "\<exists>u\<in>set (rows (user_t d)). map_of u ''email'' = Some (JStr e)"
  shows "\<exists>u. getUserByEmail d (Some (JStr e)) = Inr (Some u)"
proof -
  from assms(2) have "find (\<lambda>r. map_of r ''email'' = Some (JStr e)) (rows (user_t d)) \<noteq> None"
    by (auto simp: find_None_iff)
  with assms(1) show ?thesis
    by (auto simp: getUserByEmail_def prisma_findUnique_def)
qed

lemma getUserByEmail_unreachable:
  assumes "\<not> reachable d"
  shows "getUserByEmail d (Some (JStr e)) = Inl unreachable"
  using assms by (simp add: getUserByEmail_def prisma_findUnique_def)

lemma caught_validated_status:
  "status (caught_validated msg (ZodError ks)) = 400"
  "status (caught_validated msg (PrismaError c)) = 500"
  by (simp_all add: caught_validated_def respond_def internal_error_def)






section \<open>Classroom lookup by slug\<close>

lemma get_classroom_by_slug_route_always:
  "get_classroom_by_slug_route rt d slug = (internal_error, d)"
  by (simp add: get_classroom_by_slug_route_def storage_getClassroomBySlug_def)

text \<open>
  Claim C1 asks that a lookup by slug returns the classroom stored under that slug.
  The handler calls a storage function the module does not export, so with two
  classrooms stored under the slugs \<open>alpha\<close> and \<open>beta\<close> both lookups are answered
  500 with the internal-error body.
\<close>

theorem classroom_slug_lookup_answers_500:
  "map (\<lambda>r. map_of r ''customSlug'') (rows (classroom_t example_database)) =
     [Some (JStr ''alpha''), Some (JStr ''beta'')] \<and>
   fst (get_classroom_by_slug_route example_runtime example_database ''alpha'') =
     \<lparr> status = 500, body = JObj [(''error'', JStr ''Internal server error'')] \<rparr> \<and>
   fst (get_classroom_by_slug_route example_runtime example_database ''beta'') =
     \<lparr> status = 500, body = JObj [(''error'', JStr ''Internal server error'')] \<rparr>"
  by (simp add: get_classroom_by_slug_route_always internal_error_def respond_def
      error_body_def example_database_def)

section \<open>Start-up configuration\<close>









section \<open>Reviewing requests\<close>

lemma review_literal:
  assumes "notes \<noteq> ''status''" and "notes \<noteq> ''reviewedBy''"
  shows "map_of (literal [(''status'', st), (''reviewedBy'', rb), (notes, n)]) k =
     (if k = ''status'' then st else if k = ''reviewedBy'' then rb
      else if k = notes then n else None)"
  using assms by (cases st; cases rb; cases n) auto

lemma stamped_update:
  assumes u: "prisma_update rt d model [] t i upd = Inr (t', r)"
    and noid: "map_of upd ''id'' = None"
    and f: "map_of upd ''status'' = Some (JStr s)"
      "map_of upd ''reviewedBy'' = Some (JNum reviewer)"
      "map_of upd ''reviewedAt'' = Some stamp"
  shows "\<exists>row. find (has_id i) (rows t') = Some row \<and>
           map_of row ''status'' = Some (JStr s) \<and>
           map_of row ''reviewedBy'' = Some (JNum reviewer) \<and>
           map_of row ''reviewedAt'' = Some stamp"
  using prisma_update_stored [OF u noid] f by auto

lemma updateStaffRequest_review:
  assumes st: "map_of requestData ''status'' = Some (JStr s)" and sne: "s \<noteq> []"
    and rv: "map_of requestData ''reviewedBy'' = Some (JNum reviewer)" and nz: "reviewer \<noteq> 0"
    and noid: "map_of requestData ''id'' = None"
  shows "updateStaffRequest rt d (Some i) requestData = Inr (d', r) \<Longrightarrow>
      \<exists>row. find (has_id i) (rows (staffRequest_t d')) = Some row \<and>
           map_of row ''status'' = Some (JStr s) \<and>
           map_of row ''reviewedBy'' = Some (JNum reviewer) \<and>
           map_of row ''reviewedAt'' = Some (now rt)"
    and "find (has_id i) (rows (staffRequest_t d)) \<noteq> None \<Longrightarrow> reachable d \<Longrightarrow>
       \<forall>w. \<not> schema_rejects rt ''staffRequest'' w d \<Longrightarrow>
       \<exists>d' r. updateStaffRequest rt d (Some i) requestData = Inr (d', r)"
proof -
  let ?upd = "spread_set requestData ''reviewedAt'' (now rt)"
  have upd: "updateStaffRequest rt d (Some i) requestData =
      (case prisma_update rt d ''staffRequest'' [] (staffRequest_t d) i ?upd of
         Inl e \<Rightarrow> Inl e
       | Inr (t, r) \<Rightarrow> Inr (d\<lparr>staffRequest_t := t\<rparr>,
           include_rel rt (d\<lparr>staffRequest_t := t\<rparr>) [''mentor'', ''classroom'', ''reviewer''] r))"
    using st rv nz sne by (simp add: updateStaffRequest_def Let_def split: sum.splits prod.splits)
  have fields: "map_of ?upd ''id'' = None" "map_of ?upd ''status'' = Some (JStr s)"
    "map_of ?upd ''reviewedBy'' = Some (JNum reviewer)"
    "map_of ?upd ''reviewedAt'' = Some (now rt)"
    using st rv noid by (simp_all add: map_of_spread_set)
  {
    assume "updateStaffRequest rt d (Some i) requestData = Inr (d', r)"
    with upd obtain t r0 where
      u: "prisma_update rt d ''staffRequest'' [] (staffRequest_t d) i ?upd = Inr (t, r0)"
      and d': "d' = d\<lparr>staffRequest_t := t\<rparr>"
      by (cases "prisma_update rt d ''staffRequest'' [] (staffRequest_t d) i ?upd") auto
    from stamped_update [OF u fields] d'
    show "\<exists>row. find (has_id i) (rows (staffRequest_t d')) = Some row \<and>
           map_of row ''status'' = Some (JStr s) \<and>
           map_of row ''reviewedBy'' = Some (JNum reviewer) \<and>
           map_of row ''reviewedAt'' = Some (now rt)"
      by simp
  }
  {
    assume a: "find (has_id i) (rows (staffRequest_t d)) \<noteq> None" "reachable d"
      "\<forall>w. \<not> schema_rejects rt ''staffRequest'' w d"
    then obtain r0 where "find (has_id i) (rows (staffRequest_t d)) = Some r0" by auto
    with a fields(1) obtain t r1 where
      "prisma_update rt d ''staffRequest'' [] (staffRequest_t d) i ?upd = Inr (t, r1)"
      using prisma_update_succeeds [of i "staffRequest_t d" r0 d rt "''staffRequest''" ?upd]
      by blast
    with upd show "\<exists>d' r. updateStaffRequest rt d (Some i) requestData = Inr (d', r)"
      by simp
  }
qed

lemma updateMasterRoleRequest_review:
  assumes st: "map_of requestData ''status'' = Some (JStr s)" and sne: "s \<noteq> []"
    and rv: "map_of requestData ''reviewedBy'' = Some (JNum reviewer)" and nz: "reviewer \<noteq> 0"
    and noid: "map_of requestData ''id'' = None"
  shows "updateMasterRoleRequest rt d (Some i) requestData = Inr (d', r) \<Longrightarrow>
      \<exists>row. find (has_id i) (rows (masterRoleRequest_t d')) = Some row \<and>
           map_of row ''status'' = Some (JStr s) \<and>
           map_of row ''reviewedBy'' = Some (JNum reviewer) \<and>
           map_of row ''reviewedAt'' = Some (now rt)"
    and "find (has_id i) (rows (masterRoleRequest_t d)) \<noteq> None \<Longrightarrow> reachable d \<Longrightarrow>
       \<forall>w. \<not> schema_rejects rt ''masterRoleRequest'' w d \<Longrightarrow>
       \<exists>d' r. updateMasterRoleRequest rt d (Some i) requestData = Inr (d', r)"
proof -
  let ?decided = "if map_of requestData ''status'' = Some (JStr ''approved'')
      then spread_set requestData ''approvedAt'' (now rt)
      else if map_of requestData ''status'' = Some (JStr ''rejected'')
      then spread_set requestData ''rejectedAt'' (now rt)
      else requestData"
  let ?upd = "spread_set ?decided ''reviewedAt'' (now rt)"
  have upd: "updateMasterRoleRequest rt d (Some i) requestData =
      (case prisma_update rt d ''masterRoleRequest'' [] (masterRoleRequest_t d) i ?upd of
         Inl e \<Rightarrow> Inl e
       | Inr (t, r) \<Rightarrow> Inr (d\<lparr>masterRoleRequest_t := t\<rparr>,
           include_rel rt (d\<lparr>masterRoleRequest_t := t\<rparr>) [''mentor'', ''reviewer''] r))"
    using st rv nz sne by (simp add: updateMasterRoleRequest_def Let_def split: sum.splits prod.splits)
  have fields: "map_of ?upd ''id'' = None" "map_of ?upd ''status'' = Some (JStr s)"
    "map_of ?upd ''reviewedBy'' = Some (JNum reviewer)"
    "map_of ?upd ''reviewedAt'' = Some (now rt)"
    using st rv noid by (simp_all add: map_of_spread_set)
  {
    assume "updateMasterRoleRequest rt d (Some i) requestData = Inr (d', r)"
    with upd obtain t r0 where
      u: "prisma_update rt d ''masterRoleRequest'' [] (masterRoleRequest_t d) i ?upd = Inr (t, r0)"
      and d': "d' = d\<lparr>masterRoleRequest_t := t\<rparr>"
      by (cases "prisma_update rt d ''masterRoleRequest'' [] (masterRoleRequest_t d) i ?upd") auto
    from stamped_update [OF u fields] d'
    show "\<exists>row. find (has_id i) (rows (masterRoleRequest_t d')) = Some row \<and>
           map_of row ''status'' = Some (JStr s) \<and>
           map_of row ''reviewedBy'' = Some (JNum reviewer) \<and>
           map_of row ''reviewedAt'' = Some (now rt)"
      by simp
  }
  {
    assume a: "find (has_id i) (rows (masterRoleRequest_t d)) \<noteq> None" "reachable d"
      "\<forall>w. \<not> schema_rejects rt ''masterRoleRequest'' w d"
    then obtain r0 where "find (has_id i) (rows (masterRoleRequest_t d)) = Some r0" by auto
    with a fields(1) obtain t r1 where
      "prisma_update rt d ''masterRoleRequest'' [] (masterRoleRequest_t d) i ?upd = Inr (t, r1)"
      using prisma_update_succeeds [of i "masterRoleRequest_t d" r0 d rt "''masterRoleRequest''" ?upd]
      by blast
    with upd show "\<exists>d' r. updateMasterRoleRequest rt d (Some i) requestData = Inr (d', r)"
      by simp
  }
qed

lemma updateResignationRequest_review:
  assumes st: "map_of requestData ''status'' = Some (JStr s)" and sne: "s \<noteq> []"
    and rv: "map_of requestData ''reviewedBy'' = Some (JNum reviewer)" and nz: "reviewer \<noteq> 0"
    and noid: "map_of requestData ''id'' = None"
  shows "updateResignationRequest rt d (Some i) requestData = Inr (d', r) \<Longrightarrow>
      \<exists>row. find (has_id i) (rows (resignationRequest_t d')) = Some row \<and>
           map_of row ''status'' = Some (JStr s) \<and>
           map_of row ''reviewedBy'' = Some (JNum reviewer) \<and>
           map_of row ''reviewedAt'' = Some (now rt)"
    and "find (has_id i) (rows (resignationRequest_t d)) \<noteq> None \<Longrightarrow> reachable d \<Longrightarrow>
       \<forall>w. \<not> schema_rejects rt ''resignationRequest'' w d \<Longrightarrow>
       \<exists>d' r. updateResignationRequest rt d (Some i) requestData = Inr (d', r)"
proof -
  let ?upd = "spread_set requestData ''reviewedAt'' (now rt)"
  have upd: "updateResignationRequest rt d (Some i) requestData =
      (case prisma_update rt d ''resignationRequest'' [] (resignationRequest_t d) i ?upd of
         Inl e \<Rightarrow> Inl e
       | Inr (t, r) \<Rightarrow> Inr (d\<lparr>resignationRequest_t := t\<rparr>,
           include_rel rt (d\<lparr>resignationRequest_t := t\<rparr>) [''mentor'', ''reviewer''] r))"
    using st rv nz sne by (simp add: updateResignationRequest_def Let_def split: sum.splits prod.splits)
  have fields: "map_of ?upd ''id'' = None" "map_of ?upd ''status'' = Some (JStr s)"
    "map_of ?upd ''reviewedBy'' = Some (JNum reviewer)"
    "map_of ?upd ''reviewedAt'' = Some (now rt)"
    using st rv noid by (simp_all add: map_of_spread_set)
  {
    assume "updateResignationRequest rt d (Some i) requestData = Inr (d', r)"
    with upd obtain t r0 where
      u: "prisma_update rt d ''resignationRequest'' [] (resignationRequest_t d) i ?upd = Inr (t, r0)"
      and d': "d' = d\<lparr>resignationRequest_t := t\<rparr>"
      by (cases "prisma_update rt d ''resignationRequest'' [] (resignationRequest_t d) i ?upd") auto
    from stamped_update [OF u fields] d'
    show "\<exists>row. find (has_id i) (rows (resignationRequest_t d')) = Some row \<and>
           map_of row ''status'' = Some (JStr s) \<and>
           map_of row ''reviewedBy'' = Some (JNum reviewer) \<and>
           map_of row ''reviewedAt'' = Some (now rt)"
      by simp
  }
  {
    assume a: "find (has_id i) (rows (resignationRequest_t d)) \<noteq> None" "reachable d"
      "\<forall>w. \<not> schema_rejects rt ''resignationRequest'' w d"
    then obtain r0 where "find (has_id i) (rows (resignationRequest_t d)) = Some r0" by auto
    with a fields(1) obtain t r1 where
      "prisma_update rt d ''resignationRequest'' [] (resignationRequest_t d) i ?upd = Inr (t, r1)"
      using prisma_update_succeeds [of i "resignationRequest_t d" r0 d rt "''resignationRequest''" ?upd]
      by blast
    with upd show "\<exists>d' r. updateResignationRequest rt d (Some i) requestData = Inr (d', r)"
      by simp
  }
qed

lemma staff_request_review_route:
  assumes p: "parseInt idParam = Some i"
    and st: "map_of reqBody ''status'' = Some (JStr s)" and s: "s = ''approved'' \<or> s = ''rejected''"
    and rv: "map_of reqBody ''reviewedBy'' = Some (JNum reviewer)" and nz: "reviewer \<noteq> 0"
  shows "(patch_staff_request_status_route rt d idParam reqBody = (resp, d') \<and> status resp = 200 \<longrightarrow>
      (\<exists>row. find (has_id i) (rows (staffRequest_t d')) = Some row \<and>
           map_of row ''status'' = Some (JStr s) \<and>
           map_of row ''reviewedBy'' = Some (JNum reviewer) \<and>
           map_of row ''reviewedAt'' = Some (now rt))) \<and>
    (find (has_id i) (rows (staffRequest_t d)) \<noteq> None \<and> reachable d \<and>
       (\<forall>w. \<not> schema_rejects rt ''staffRequest'' w d) \<longrightarrow>
       status (fst (patch_staff_request_status_route rt d idParam reqBody)) = 200)"
proof -
  define requestData where "requestData = literal [(''status'', map_of reqBody ''status''),
                        (''reviewedBy'', map_of reqBody ''reviewedBy''),
                        (''adminNotes'', map_of reqBody ''adminNotes'')]"
  have lit: "map_of requestData k = (if k = ''status'' then map_of reqBody ''status''
      else if k = ''reviewedBy'' then map_of reqBody ''reviewedBy''
      else if k = ''adminNotes'' then map_of reqBody ''adminNotes'' else None)" for k
    unfolding requestData_def by (rule review_literal) simp_all
  from s have sne: "s \<noteq> []" by auto
  have f: "map_of requestData ''status'' = Some (JStr s)"
    "map_of requestData ''reviewedBy'' = Some (JNum reviewer)"
    "map_of requestData ''id'' = None"
    using st rv by (simp_all add: lit)
  have route: "patch_staff_request_status_route rt d idParam reqBody =
      (case updateStaffRequest rt d (Some i) requestData of
         Inl e \<Rightarrow> (internal_error, d)
       | Inr (d', request) \<Rightarrow> (respond 200 (JObj request), d'))"
    using p by (simp add: patch_staff_request_status_route_def requestData_def del: literal.simps)
  show ?thesis
  proof (intro conjI impI)
    assume a: "patch_staff_request_status_route rt d idParam reqBody = (resp, d') \<and> status resp = 200"
    with route obtain r where "updateStaffRequest rt d (Some i) requestData = Inr (d', r)"
      by (cases "updateStaffRequest rt d (Some i) requestData")
         (auto simp: internal_error_def respond_def)
    from updateStaffRequest_review(1) [OF f(1) sne f(2) nz f(3) this]
    show "\<exists>row. find (has_id i) (rows (staffRequest_t d')) = Some row \<and>
           map_of row ''status'' = Some (JStr s) \<and>
           map_of row ''reviewedBy'' = Some (JNum reviewer) \<and>
           map_of row ''reviewedAt'' = Some (now rt)" .
  next
    assume a: "find (has_id i) (rows (staffRequest_t d)) \<noteq> None \<and> reachable d \<and>
       (\<forall>w. \<not> schema_rejects rt ''staffRequest'' w d)"
    then obtain d1 r1 where "updateStaffRequest rt d (Some i) requestData = Inr (d1, r1)"
      using updateStaffRequest_review(2) [OF f(1) sne f(2) nz f(3), of i d rt] by blast
    with route show "status (fst (patch_staff_request_status_route rt d idParam reqBody)) = 200"
      by (simp add: respond_def)
  qed
qed

lemma master_role_request_review_route:
  assumes p: "parseInt idParam = Some i"
    and st: "map_of reqBody ''status'' = Some (JStr s)" and s: "s = ''approved'' \<or> s = ''rejected''"
    and rv: "map_of reqBody ''reviewedBy'' = Some (JNum reviewer)" and nz: "reviewer \<noteq> 0"
  shows "(patch_master_role_request_status_route rt d idParam reqBody = (resp, d') \<and> status resp = 200 \<longrightarrow>
      (\<exists>row. find (has_id i) (rows (masterRoleRequest_t d')) = Some row \<and>
           map_of row ''status'' = Some (JStr s) \<and>
           map_of row ''reviewedBy'' = Some (JNum reviewer) \<and>
           map_of row ''reviewedAt'' = Some (now rt))) \<and>
    (find (has_id i) (rows (masterRoleRequest_t d)) \<noteq> None \<and> reachable d \<and>
       (\<forall>w. \<not> schema_rejects rt ''masterRoleRequest'' w d) \<longrightarrow>
       status (fst (patch_master_role_request_status_route rt d idParam reqBody)) = 200)"
proof -
  define requestData where "requestData = literal [(''status'', map_of reqBody ''status''),
                        (''reviewedBy'', map_of reqBody ''reviewedBy''),
                        (''adminNotes'', map_of reqBody ''adminNotes'')]"
  have lit: "map_of requestData k = (if k = ''status'' then map_of reqBody ''status''
      else if k = ''reviewedBy'' then map_of reqBody ''reviewedBy''
      else if k = ''adminNotes'' then map_of reqBody ''adminNotes'' else None)" for k
    unfolding requestData_def by (rule review_literal) simp_all
  from s have sne: "s \<noteq> []" by auto
  have f: "map_of requestData ''status'' = Some (JStr s)"
    "map_of requestData ''reviewedBy'' = Some (JNum reviewer)"
    "map_of requestData ''id'' = None"
    using st rv by (simp_all add: lit)
  have route: "patch_master_role_request_status_route rt d idParam reqBody =
      (case updateMasterRoleRequest rt d (Some i) requestData of
         Inl e \<Rightarrow> (internal_error, d)
       | Inr (d', request) \<Rightarrow> (respond 200 (JObj request), d'))"
    using p by (simp add: patch_master_role_request_status_route_def requestData_def del: literal.simps)
  show ?thesis
  proof (intro conjI impI)
    assume a: "patch_master_role_request_status_route rt d idParam reqBody = (resp, d') \<and> status resp = 200"
    with route obtain r where "updateMasterRoleRequest rt d (Some i) requestData = Inr (d', r)"
      by (cases "updateMasterRoleRequest rt d (Some i) requestData")
         (auto simp: internal_error_def respond_def)
    from updateMasterRoleRequest_review(1) [OF f(1) sne f(2) nz f(3) this]
    show "\<exists>row. find (has_id i) (rows (masterRoleRequest_t d')) = Some row \<and>
           map_of row ''status'' = Some (JStr s) \<and>
           map_of row ''reviewedBy'' = Some (JNum reviewer) \<and>
           map_of row ''reviewedAt'' = Some (now rt)" .
  next
    assume a: "find (has_id i) (rows (masterRoleRequest_t d)) \<noteq> None \<and> reachable d \<and>
       (\<forall>w. \<not> schema_rejects rt ''masterRoleRequest'' w d)"
    then obtain d1 r1 where "updateMasterRoleRequest rt d (Some i) requestData = Inr (d1, r1)"
      using updateMasterRoleRequest_review(2) [OF f(1) sne f(2) nz f(3), of i d rt] by blast
    with route show "status (fst (patch_master_role_request_status_route rt d idParam reqBody)) = 200"
      by (simp add: respond_def)
  qed
qed

lemma resignation_request_review_route:
  assumes p: "parseInt idParam = Some i"
    and st: "map_of reqBody ''status'' = Some (JStr s)" and s: "s = ''approved'' \<or> s = ''rejected''"
    and rv: "map_of reqBody ''reviewedBy'' = Some (JNum reviewer)" and nz: "reviewer \<noteq> 0"
  shows "(patch_resignation_request_status_route rt d idParam reqBody = (resp, d') \<and> status resp = 200 \<longrightarrow>
      (\<exists>row. find (has_id i) (rows (resignationRequest_t d')) = Some row \<and>
           map_of row ''status'' = Some (JStr s) \<and>
           map_of row ''reviewedBy'' = Some (JNum reviewer) \<and>
           map_of row ''reviewedAt'' = Some (now rt))) \<and>
    (find (has_id i) (rows (resignationRequest_t d)) \<noteq> None \<and> reachable d \<and>
       (\<forall>w. \<not> schema_rejects rt ''resignationRequest'' w d) \<longrightarrow>
       status (fst (patch_resignation_request_status_route rt d idParam reqBody)) = 200)"
proof -
  define requestData where "requestData = literal [(''status'', map_of reqBody ''status''),
                        (''reviewedBy'', map_of reqBody ''reviewedBy''),
                        (''masterNotes'', map_of reqBody ''masterNotes'')]"
  have lit: "map_of requestData k = (if k = ''status'' then map_of reqBody ''status''
      else if k = ''reviewedBy'' then map_of reqBody ''reviewedBy''
      else if k = ''masterNotes'' then map_of reqBody ''masterNotes'' else None)" for k
    unfolding requestData_def by (rule review_literal) simp_all
  from s have sne: "s \<noteq> []" by auto
  have f: "map_of requestData ''status'' = Some (JStr s)"
    "map_of requestData ''reviewedBy'' = Some (JNum reviewer)"
    "map_of requestData ''id'' = None"
    using st rv by (simp_all add: lit)
  have route: "patch_resignation_request_status_route rt d idParam reqBody =
      (case updateResignationRequest rt d (Some i) requestData of
         Inl e \<Rightarrow> (internal_error, d)
       | Inr (d', request) \<Rightarrow> (respond 200 (JObj request), d'))"
    using p by (simp add: patch_resignation_request_status_route_def requestData_def del: literal.simps)
  show ?thesis
  proof (intro conjI impI)
    assume a: "patch_resignation_request_status_route rt d idParam reqBody = (resp, d') \<and> status resp = 200"
    with route obtain r where "updateResignationRequest rt d (Some i) requestData = Inr (d', r)"
      by (cases "updateResignationRequest rt d (Some i) requestData")
         (auto simp: internal_error_def respond_def)
    from updateResignationRequest_review(1) [OF f(1) sne f(2) nz f(3) this]
    show "\<exists>row. find (has_id i) (rows (resignationRequest_t d')) = Some row \<and>
           map_of row ''status'' = Some (JStr s) \<and>
           map_of row ''reviewedBy'' = Some (JNum reviewer) \<and>
           map_of row ''reviewedAt'' = Some (now rt)" .
  next
    assume a: "find (has_id i) (rows (resignationRequest_t d)) \<noteq> None \<and> reachable d \<and>
       (\<forall>w. \<not> schema_rejects rt ''resignationRequest'' w d)"
    then obtain d1 r1 where "updateResignationRequest rt d (Some i) requestData = Inr (d1, r1)"
      using updateResignationRequest_review(2) [OF f(1) sne f(2) nz f(3), of i d rt] by blast
    with route show "status (fst (patch_resignation_request_status_route rt d idParam reqBody)) = 200"
      by (simp add: respond_def)
  qed
qed

text \<open>
  Claim C3. For staff, master-role and resignation requests: a status update of a
  stored pending request to \<open>approved\<close> or \<open>rejected\<close> under a reviewer (a non-zero
  reviewer identifier, as JavaScript truthiness reads it) that is answered 200 leaves
  the stored row with the new status, the reviewer and \<open>reviewedAt\<close> set to the time
  of the update; and the update is answered 200 when the database is reachable and its
  schema refuses no write.
\<close>

theorem review_stamps_timestamp:
  assumes "parseInt idParam = Some i"
    and "map_of reqBody ''status'' = Some (JStr s)" and "s = ''approved'' \<or> s = ''rejected''"
    and "map_of reqBody ''reviewedBy'' = Some (JNum reviewer)" and "reviewer \<noteq> 0"
  shows "((\<exists>r0. find (has_id i) (rows (staffRequest_t d)) = Some r0 \<and>
            map_of r0 ''status'' = Some (JStr ''pending'')) \<and>
      status (fst (patch_staff_request_status_route rt d idParam reqBody)) = 200 \<longrightarrow>
      (\<exists>row. find (has_id i) (rows (staffRequest_t (snd (patch_staff_request_status_route rt d idParam reqBody)))) = Some row \<and>
           map_of row ''status'' = Some (JStr s) \<and>
           map_of row ''reviewedBy'' = Some (JNum reviewer) \<and>
           map_of row ''reviewedAt'' = Some (now rt))) \<and>
   ((\<exists>r0. find (has_id i) (rows (staffRequest_t d)) = Some r0 \<and>
            map_of r0 ''status'' = Some (JStr ''pending'')) \<and>
      reachable d \<and> (\<forall>w. \<not> schema_rejects rt ''staffRequest'' w d) \<longrightarrow>
      status (fst (patch_staff_request_status_route rt d idParam reqBody)) = 200) \<and>
   ((\<exists>r0. find (has_id i) (rows (masterRoleRequest_t d)) = Some r0 \<and>
            map_of r0 ''status'' = Some (JStr ''pending'')) \<and>
      status (fst (patch_master_role_request_status_route rt d idParam reqBody)) = 200 \<longrightarrow>
      (\<exists>row. find (has_id i) (rows (masterRoleRequest_t (snd (patch_master_role_request_status_route rt d idParam reqBody)))) = Some row \<and>
           map_of row ''status'' = Some (JStr s) \<and>
           map_of row ''reviewedBy'' = Some (JNum reviewer) \<and>
           map_of row ''reviewedAt'' = Some (now rt))) \<and>
   ((\<exists>r0. find (has_id i) (rows (masterRoleRequest_t d)) = Some r0 \<and>
            map_of r0 ''status'' = Some (JStr ''pending'')) \<and>
      reachable d \<and> (\<forall>w. \<not> schema_rejects rt ''masterRoleRequest'' w d) \<longrightarrow>
      status (fst (patch_master_role_request_status_route rt d idParam reqBody)) = 200) \<and>
   ((\<exists>r0. find (has_id i) (rows (resignationRequest_t d)) = Some r0 \<and>
            map_of r0 ''status'' = Some (JStr ''pending'')) \<and>
      status (fst (patch_resignation_request_status_route rt d idParam reqBody)) = 200 \<longrightarrow>
      (\<exists>row. find (has_id i) (rows (resignationRequest_t (snd (patch_resignation_request_status_route rt d idParam reqBody)))) = Some row \<and>
           map_of row ''status'' = Some (JStr s) \<and>
           map_of row ''reviewedBy'' = Some (JNum reviewer) \<and>
           map_of row ''reviewedAt'' = Some (now rt))) \<and>
   ((\<exists>r0. find (has_id i) (rows (resignationRequest_t d)) = Some r0 \<and>
            map_of r0 ''status'' = Some (JStr ''pending'')) \<and>
      reachable d \<and> (\<forall>w. \<not> schema_rejects rt ''resignationRequest'' w d) \<longrightarrow>
      status (fst (patch_resignation_request_status_route rt d idParam reqBody)) = 200)"
proof -
  note a = assms
  have staff_request: "(status (fst (patch_staff_request_status_route rt d idParam reqBody)) = 200 \<longrightarrow>
      (\<exists>row. find (has_id i) (rows (staffRequest_t (snd (patch_staff_request_status_route rt d idParam reqBody)))) = Some row \<and>
           map_of row ''status'' = Some (JStr s) \<and>
           map_of row ''reviewedBy'' = Some (JNum reviewer) \<and>
           map_of row ''reviewedAt'' = Some (now rt))) \<and>
    (find (has_id i) (rows (staffRequest_t d)) \<noteq> None \<and> reachable d \<and>
       (\<forall>w. \<not> schema_rejects rt ''staffRequest'' w d) \<longrightarrow>
       status (fst (patch_staff_request_status_route rt d idParam reqBody)) = 200)"
    using staff_request_review_route [where rt = rt and d = d
        and resp = "fst (patch_staff_request_status_route rt d idParam reqBody)"
        and d' = "snd (patch_staff_request_status_route rt d idParam reqBody)", OF a]
    by simp
  have master_role_request: "(status (fst (patch_master_role_request_status_route rt d idParam reqBody)) = 200 \<longrightarrow>
      (\<exists>row. find (has_id i) (rows (masterRoleRequest_t (snd (patch_master_role_request_status_route rt d idParam reqBody)))) = Some row \<and>
           map_of row ''status'' = Some (JStr s) \<and>
           map_of row ''reviewedBy'' = Some (JNum reviewer) \<and>
           map_of row ''reviewedAt'' = Some (now rt))) \<and>
    (find (has_id i) (rows (masterRoleRequest_t d)) \<noteq> None \<and> reachable d \<and>
       (\<forall>w. \<not> schema_rejects rt ''masterRoleRequest'' w d) \<longrightarrow>
       status (fst (patch_master_role_request_status_route rt d idParam reqBody)) = 200)"
    using master_role_request_review_route [where rt = rt and d = d
        and resp = "fst (patch_master_role_request_status_route rt d idParam reqBody)"
        and d' = "snd (patch_master_role_request_status_route rt d idParam reqBody)", OF a]
    by simp
  have resignation_request: "(status (fst (patch_resignation_request_status_route rt d idParam reqBody)) = 200 \<longrightarrow>
      (\<exists>row. find (has_id i) (rows (resignationRequest_t (snd (patch_resignation_request_status_route rt d idParam reqBody)))) = Some row \<and>
           map_of row ''status'' = Some (JStr s) \<and>
           map_of row ''reviewedBy'' = Some (JNum reviewer) \<and>
           map_of row ''reviewedAt'' = Some (now rt))) \<and>
    (find (has_id i) (rows (resignationRequest_t d)) \<noteq> None \<and> reachable d \<and>
       (\<forall>w. \<not> schema_rejects rt ''resignationRequest'' w d) \<longrightarrow>
       status (fst (patch_resignation_request_status_route rt d idParam reqBody)) = 200)"
    using resignation_request_review_route [where rt = rt and d = d
        and resp = "fst (patch_resignation_request_status_route rt d idParam reqBody)"
        and d' = "snd (patch_resignation_request_status_route rt d idParam reqBody)", OF a]
    by simp
  from staff_request master_role_request resignation_request show ?thesis
    by (intro conjI impI) (blast, force, blast, force, blast, force)
qed

theorem review_stamps_timestamp_witness:
  "parseInt ''1'' = Some 1 \<and>
   (\<exists>r0. find (has_id 1) (rows (staffRequest_t example_database)) = Some r0 \<and>
         map_of r0 ''status'' = Some (JStr ''pending'')) \<and>
   status (fst (patch_staff_request_status_route example_runtime example_database ''1''
     review_approve)) = 200 \<and>
   (\<exists>row. find (has_id 1) (rows (staffRequest_t (snd (patch_staff_request_status_route
        example_runtime example_database ''1'' review_approve)))) = Some row \<and>
      map_of row ''status'' = Some (JStr ''approved'') \<and>
      map_of row ''reviewedBy'' = Some (JNum 1) \<and>
      map_of row ''reviewedAt'' = Some (now example_runtime))"
proof -
  have p: "parseInt ''1'' = Some 1" by code_simp
  have st: "map_of review_approve ''status'' = Some (JStr ''approved'')"
    and rv: "map_of review_approve ''reviewedBy'' = Some (JNum 1)"
    by (simp_all add: review_approve_def)
  have s: "''approved'' = ''approved'' \<or> ''approved'' = ''rejected''" by simp
  have nz: "(1::int) \<noteq> 0" by simp
  have pend: "\<exists>r0. find (has_id 1) (rows (staffRequest_t example_database)) = Some r0 \<and>
         map_of r0 ''status'' = Some (JStr ''pending'')"
    by (simp add: example_database_def has_id_def)
  have r: "reachable example_database"
    and acc: "\<forall>w. \<not> schema_rejects example_runtime ''staffRequest'' w example_database"
    by (simp_all add: example_database_def example_runtime_def)
  note t = review_stamps_timestamp [where d = example_database and rt = example_runtime, OF p st s rv nz]
  from t pend r acc
  have ok: "status (fst (patch_staff_request_status_route example_runtime example_database ''1''
     review_approve)) = 200" by blast
  with t pend
  have "\<exists>row. find (has_id 1) (rows (staffRequest_t (snd (patch_staff_request_status_route
        example_runtime example_database ''1'' review_approve)))) = Some row \<and>
      map_of row ''status'' = Some (JStr ''approved'') \<and>
      map_of row ''reviewedBy'' = Some (JNum 1) \<and>
      map_of row ''reviewedAt'' = Some (now example_runtime)" by blast
  with p pend ok show ?thesis by blast
qed

section \<open>Registration with a stored e-mail\<close>

text \<open>
  Claim C4, amended. In every state in which a user with e-mail \<open>e\<close> is stored, a
  registration request whose body carries \<open>e\<close> leaves the database as it was; it is
  answered 409 when the body passes validation and the database is reachable, 400
  when the body fails validation, and 500 when the body passes and the database is
  unreachable.
\<close>

theorem duplicate_email_registration:
  assumes ex: "\<exists>u\<in>set (rows (user_t d)). map_of u ''email'' = Some (JStr e)"
    and em: "map_of reqBody ''email'' = Some (JStr e)"
  shows "snd (register_route rt d reqBody) = d \<and>
    ((\<exists>v. zparse (isEmail rt) insertUserSchema (map_of (registration_payload reqBody)) = Inr v) \<and>
       reachable d \<longrightarrow>
       fst (register_route rt d reqBody) =
         respond 409 (error_body ''User already exists with this email'')) \<and>
    (\<not> (\<exists>v. zparse (isEmail rt) insertUserSchema (map_of (registration_payload reqBody)) = Inr v) \<longrightarrow>
       status (fst (register_route rt d reqBody)) = 400) \<and>
    ((\<exists>v. zparse (isEmail rt) insertUserSchema (map_of (registration_payload reqBody)) = Inr v) \<and>
       \<not> reachable d \<longrightarrow>
       status (fst (register_route rt d reqBody)) = 500)"
proof (cases rule: zparse_cases [of "isEmail rt" insertUserSchema
    "map_of (registration_payload reqBody)"])
  case (invalid ks)
  then show ?thesis
    by (simp add: register_route_def caught_validated_status)
next
  case (valid v)
  from validated_user_email [OF valid] em have ve: "map_of v ''email'' = Some (JStr e)"
    by (auto simp: registration_payload_email)
  show ?thesis
  proof (cases "reachable d")
    case True
    with ex obtain u where "getUserByEmail d (Some (JStr e)) = Inr (Some u)"
      using getUserByEmail_found by blast
    with valid ve True show ?thesis
      by (simp add: register_route_def)
  next
    case False
    then have "getUserByEmail d (Some (JStr e)) = Inl unreachable"
      by (rule getUserByEmail_unreachable)
    with valid ve False show ?thesis
      by (simp add: register_route_def unreachable_def caught_validated_status)
  qed
qed

theorem duplicate_email_registration_witness:
  "(\<exists>u\<in>set (rows (user_t example_database)). map_of u ''email'' = Some (JStr ''ann@example.org'')) \<and>
   map_of register_ann_again ''email'' = Some (JStr ''ann@example.org'') \<and>
   (\<exists>v. zparse (isEmail example_runtime) insertUserSchema
          (map_of (registration_payload register_ann_again)) = Inr v) \<and>
   reachable example_database \<and>
   snd (register_route example_runtime example_database register_ann_again) = example_database \<and>
   status (fst (register_route example_runtime example_database register_ann_again)) = 409"
proof -
  have ex: "\<exists>u\<in>set (rows (user_t example_database)).
      map_of u ''email'' = Some (JStr ''ann@example.org'')"
    by (simp add: example_database_def)
  have em: "map_of register_ann_again ''email'' = Some (JStr ''ann@example.org'')"
    by (simp add: register_ann_again_def)
  have "case zparse (isEmail example_runtime) insertUserSchema
          (map_of (registration_payload register_ann_again)) of Inl e \<Rightarrow> False | Inr v \<Rightarrow> True"
    by code_simp
  then have v: "\<exists>v. zparse (isEmail example_runtime) insertUserSchema
          (map_of (registration_payload register_ann_again)) = Inr v"
    by (cases "zparse (isEmail example_runtime) insertUserSchema
          (map_of (registration_payload register_ann_again))") auto
  have r: "reachable example_database" by (simp add: example_database_def)
  note t = duplicate_email_registration [OF ex em, of example_runtime]
  from t have 1: "snd (register_route example_runtime example_database register_ann_again) =
      example_database" by (rule conjunct1)
  from t v r have "fst (register_route example_runtime example_database register_ann_again) =
         respond 409 (error_body ''User already exists with this email'')" by blast
  then have 2: "status (fst (register_route example_runtime example_database register_ann_again)) = 409"
    by (simp add: respond_def)
  from ex em v r 1 2 show ?thesis by blast
qed

text \<open>
  A body that carries the stored e-mail and nothing else fails validation first: the
  answer is 400, not 409.
\<close>

theorem duplicate_email_registration_counterexample:
  "getUserByEmail example_database (Some (JStr ''ann@example.org'')) =
     Inr (Some [(''id'', JNum 1), (''username'', JStr ''ann''),
                (''password'', JStr ''$2b$10$secret''),
                (''email'', JStr ''ann@example.org''), (''role'', JStr ''student'')]) \<and>
   map_of register_ann_incomplete ''email'' = Some (JStr ''ann@example.org'') \<and>
   status (fst (register_route example_runtime example_database register_ann_incomplete)) = 400 \<and>
   status (fst (register_route example_runtime example_database register_ann_incomplete)) \<noteq> 409"
  by code_simp

section \<open>Passwords\<close>






section \<open>Create, then get by identifier\<close>









section \<open>Delete, then get by identifier\<close>

lemma delete_course_route_cases:
  "(status (fst (delete_course_route rt d idParam)) = 200 \<longrightarrow>
      status (fst (get_course_route rt (snd (delete_course_route rt d idParam)) idParam)) = 404) \<and>
   (parseInt idParam = Some i \<and> find (has_id i) (rows (course_t d)) \<noteq> None \<and> reachable d \<and>
      \<not> schema_rejects rt ''course'' (Delete i) d \<longrightarrow>
      fst (delete_course_route rt d idParam) =
        respond 200 (JObj [(''message'', JStr ''Course deleted successfully'')])) \<and>
   (parseInt idParam = Some i \<and> find (has_id i) (rows (course_t d)) = None \<longrightarrow>
      status (fst (delete_course_route rt d idParam)) = 500 \<and>
      snd (delete_course_route rt d idParam) = d)"
proof (intro conjI impI)
  assume ok: "status (fst (delete_course_route rt d idParam)) = 200"
  then obtain i t r where p: "parseInt idParam = Some i"
    and del: "prisma_delete rt d ''course'' (course_t d) i = Inr (t, r)"
    and d': "snd (delete_course_route rt d idParam) = d\<lparr>course_t := t\<rparr>"
    by (cases "parseInt idParam")
       (auto simp: delete_course_route_def deleteCourse_def status_internal_error
          split: sum.splits)
  from prisma_delete_Inr [OF del]
  have "find_by_id (d\<lparr>course_t := t\<rparr>) (course_t (d\<lparr>course_t := t\<rparr>)) (Some i) = Inr None"
    by (intro find_by_id_absent) simp_all
  with p d' show "status (fst (get_course_route rt (snd (delete_course_route rt d idParam))
      idParam)) = 404"
    by (simp add: get_course_route_def getCourseById_def included_def respond_def)
next
  assume "parseInt idParam = Some i \<and> find (has_id i) (rows (course_t d)) \<noteq> None \<and>
    reachable d \<and> \<not> schema_rejects rt ''course'' (Delete i) d"
  then show "fst (delete_course_route rt d idParam) =
        respond 200 (JObj [(''message'', JStr ''Course deleted successfully'')])"
    by (auto simp: delete_course_route_def deleteCourse_def prisma_delete_def
        split: option.splits)
next
  assume a: "parseInt idParam = Some i \<and> find (has_id i) (rows (course_t d)) = None"
  then obtain e where "prisma_delete rt d ''course'' (course_t d) i = Inl e"
    using prisma_delete_absent by blast
  with a show "status (fst (delete_course_route rt d idParam)) = 500"
    by (simp add: delete_course_route_def deleteCourse_def status_internal_error)
next
  assume a: "parseInt idParam = Some i \<and> find (has_id i) (rows (course_t d)) = None"
  then obtain e where "prisma_delete rt d ''course'' (course_t d) i = Inl e"
    using prisma_delete_absent by blast
  with a show "snd (delete_course_route rt d idParam) = d"
    by (simp add: delete_course_route_def deleteCourse_def)
qed

lemma delete_classroom_route_cases:
  "(status (fst (delete_classroom_route rt d idParam)) = 200 \<longrightarrow>
      status (fst (get_classroom_route rt (snd (delete_classroom_route rt d idParam)) idParam)) = 404) \<and>
   (parseInt idParam = Some i \<and> find (has_id i) (rows (classroom_t d)) \<noteq> None \<and> reachable d \<and>
      \<not> schema_rejects rt ''classroom'' (Delete i) d \<longrightarrow>
      fst (delete_classroom_route rt d idParam) =
        respond 200 (JObj [(''message'', JStr ''Classroom deleted successfully'')])) \<and>
   (parseInt idParam = Some i \<and> find (has_id i) (rows (classroom_t d)) = None \<longrightarrow>
      status (fst (delete_classroom_route rt d idParam)) = 500 \<and>
      snd (delete_classroom_route rt d idParam) = d)"
proof (intro conjI impI)
  assume ok: "status (fst (delete_classroom_route rt d idParam)) = 200"
  then obtain i t r where p: "parseInt idParam = Some i"
    and del: "prisma_delete rt d ''classroom'' (classroom_t d) i = Inr (t, r)"
    and d': "snd (delete_classroom_route rt d idParam) = d\<lparr>classroom_t := t\<rparr>"
    by (cases "parseInt idParam")
       (auto simp: delete_classroom_route_def deleteClassroom_def status_internal_error
          split: sum.splits)
  from prisma_delete_Inr [OF del]
  have "find_by_id (d\<lparr>classroom_t := t\<rparr>) (classroom_t (d\<lparr>classroom_t := t\<rparr>)) (Some i) = Inr None"
    by (intro find_by_id_absent) simp_all
  with p d' show "status (fst (get_classroom_route rt (snd (delete_classroom_route rt d idParam))
      idParam)) = 404"
    by (simp add: get_classroom_route_def getClassroomById_def included_def respond_def)
next
  assume "parseInt idParam = Some i \<and> find (has_id i) (rows (classroom_t d)) \<noteq> None \<and>
    reachable d \<and> \<not> schema_rejects rt ''classroom'' (Delete i) d"
  then show "fst (delete_classroom_route rt d idParam) =
        respond 200 (JObj [(''message'', JStr ''Classroom deleted successfully'')])"
    by (auto simp: delete_classroom_route_def deleteClassroom_def prisma_delete_def
        split: option.splits)
next
  assume a: "parseInt idParam = Some i \<and> find (has_id i) (rows (classroom_t d)) = None"
  then obtain e where "prisma_delete rt d ''classroom'' (classroom_t d) i = Inl e"
    using prisma_delete_absent by blast
  with a show "status (fst (delete_classroom_route rt d idParam)) = 500"
    by (simp add: delete_classroom_route_def deleteClassroom_def status_internal_error)
next
  assume a: "parseInt idParam = Some i \<and> find (has_id i) (rows (classroom_t d)) = None"
  then obtain e where "prisma_delete rt d ''classroom'' (classroom_t d) i = Inl e"
    using prisma_delete_absent by blast
  with a show "snd (delete_classroom_route rt d idParam) = d"
    by (simp add: delete_classroom_route_def deleteClassroom_def)
qed

lemma delete_schedule_route_cases:
  "(status (fst (delete_schedule_route rt d idParam)) = 200 \<longrightarrow>
      status (fst (get_schedule_route rt (snd (delete_schedule_route rt d idParam)) idParam)) = 404) \<and>
   (parseInt idParam = Some i \<and> find (has_id i) (rows (schedule_t d)) \<noteq> None \<and> reachable d \<and>
      \<not> schema_rejects rt ''schedule'' (Delete i) d \<longrightarrow>
      fst (delete_schedule_route rt d idParam) =
        respond 200 (JObj [(''message'', JStr ''Schedule deleted successfully'')])) \<and>
   (parseInt idParam = Some i \<and> find (has_id i) (rows (schedule_t d)) = None \<longrightarrow>
      status (fst (delete_schedule_route rt d idParam)) = 500 \<and>
      snd (delete_schedule_route rt d idParam) = d)"
proof (intro conjI impI)
  assume ok: "status (fst (delete_schedule_route rt d idParam)) = 200"
  then obtain i t r where p: "parseInt idParam = Some i"
    and del: "prisma_delete rt d ''schedule'' (schedule_t d) i = Inr (t, r)"
    and d': "snd (delete_schedule_route rt d idParam) = d\<lparr>schedule_t := t\<rparr>"
    by (cases "parseInt idParam")
       (auto simp: delete_schedule_route_def deleteSchedule_def status_internal_error
          split: sum.splits)
  from prisma_delete_Inr [OF del]
  have "find_by_id (d\<lparr>schedule_t := t\<rparr>) (schedule_t (d\<lparr>schedule_t := t\<rparr>)) (Some i) = Inr None"
    by (intro find_by_id_absent) simp_all
  with p d' show "status (fst (get_schedule_route rt (snd (delete_schedule_route rt d idParam))
      idParam)) = 404"
    by (simp add: get_schedule_route_def getScheduleById_def included_def respond_def)
next
  assume "parseInt idParam = Some i \<and> find (has_id i) (rows (schedule_t d)) \<noteq> None \<and>
    reachable d \<and> \<not> schema_rejects rt ''schedule'' (Delete i) d"
  then show "fst (delete_schedule_route rt d idParam) =
        respond 200 (JObj [(''message'', JStr ''Schedule deleted successfully'')])"
    by (auto simp: delete_schedule_route_def deleteSchedule_def prisma_delete_def
        split: option.splits)
next
  assume a: "parseInt idParam = Some i \<and> find (has_id i) (rows (schedule_t d)) = None"
  then obtain e where "prisma_delete rt d ''schedule'' (schedule_t d) i = Inl e"
    using prisma_delete_absent by blast
  with a show "status (fst (delete_schedule_route rt d idParam)) = 500"
    by (simp add: delete_schedule_route_def deleteSchedule_def status_internal_error)
next
  assume a: "parseInt idParam = Some i \<and> find (has_id i) (rows (schedule_t d)) = None"
  then obtain e where "prisma_delete rt d ''schedule'' (schedule_t d) i = Inl e"
    using prisma_delete_absent by blast
  with a show "snd (delete_schedule_route rt d idParam) = d"
    by (simp add: delete_schedule_route_def deleteSchedule_def)
qed

text \<open>
  Claim C7. For courses, classrooms and schedules: after a delete answered 200, a get
  by the same identifier answers 404; a delete of a stored identifier is answered 200
  with the message body when the database is reachable and its schema does not refuse
  the removal; a delete of an identifier that is not stored is answered 500 and leaves
  the database as it was.
\<close>

theorem delete_then_get_by_id:
  "((status (fst (delete_course_route rt d idParam)) = 200 \<longrightarrow>
      status (fst (get_course_route rt (snd (delete_course_route rt d idParam)) idParam)) = 404) \<and>
    (parseInt idParam = Some i \<and> find (has_id i) (rows (course_t d)) \<noteq> None \<and> reachable d \<and>
      \<not> schema_rejects rt ''course'' (Delete i) d \<longrightarrow>
      fst (delete_course_route rt d idParam) =
        respond 200 (JObj [(''message'', JStr ''Course deleted successfully'')])) \<and>
    (parseInt idParam = Some i \<and> find (has_id i) (rows (course_t d)) = None \<longrightarrow>
      status (fst (delete_course_route rt d idParam)) = 500 \<and>
      snd (delete_course_route rt d idParam) = d)) \<and>
   ((status (fst (delete_classroom_route rt d idParam)) = 200 \<longrightarrow>
      status (fst (get_classroom_route rt (snd (delete_classroom_route rt d idParam)) idParam)) = 404) \<and>
    (parseInt idParam = Some i \<and> find (has_id i) (rows (classroom_t d)) \<noteq> None \<and> reachable d \<and>
      \<not> schema_rejects rt ''classroom'' (Delete i) d \<longrightarrow>
      fst (delete_classroom_route rt d idParam) =
        respond 200 (JObj [(''message'', JStr ''Classroom deleted successfully'')])) \<and>
    (parseInt idParam = Some i \<and> find (has_id i) (rows (classroom_t d)) = None \<longrightarrow>
      status (fst (delete_classroom_route rt d idParam)) = 500 \<and>
      snd (delete_classroom_route rt d idParam) = d)) \<and>
   ((status (fst (delete_schedule_route rt d idParam)) = 200 \<longrightarrow>
      status (fst (get_schedule_route rt (snd (delete_schedule_route rt d idParam)) idParam)) = 404) \<and>
    (parseInt idParam = Some i \<and> find (has_id i) (rows (schedule_t d)) \<noteq> None \<and> reachable d \<and>
      \<not> schema_rejects rt ''schedule'' (Delete i) d \<longrightarrow>
      fst (delete_schedule_route rt d idParam) =
        respond 200 (JObj [(''message'', JStr ''Schedule deleted successfully'')])) \<and>
    (parseInt idParam = Some i \<and> find (has_id i) (rows (schedule_t d)) = None \<longrightarrow>
      status (fst (delete_schedule_route rt d idParam)) = 500 \<and>
      snd (delete_schedule_route rt d idParam) = d))"
  using delete_course_route_cases [of rt d idParam i]
    delete_classroom_route_cases [of rt d idParam i]
    delete_schedule_route_cases [of rt d idParam i]
  by (intro conjI) blast+

theorem delete_then_get_by_id_witness:
  "parseInt ''1'' = Some 1 \<and> parseInt ''7'' = Some 7 \<and>
   find (has_id 1) (rows (course_t example_database)) \<noteq> None \<and>
   find (has_id 7) (rows (course_t example_database)) = None \<and>
   status (fst (delete_course_route example_runtime example_database ''1'')) = 200 \<and>
   status (fst (get_course_route example_runtime
     (snd (delete_course_route example_runtime example_database ''1'')) ''1'')) = 404 \<and>
   status (fst (delete_course_route example_runtime example_database ''7'')) = 500 \<and>
   snd (delete_course_route example_runtime example_database ''7'') = example_database"
proof -
  have p1: "parseInt ''1'' = Some 1" and p7: "parseInt ''7'' = Some 7" by code_simp+
  have e1: "find (has_id 1) (rows (course_t example_database)) \<noteq> None"
    and e7: "find (has_id 7) (rows (course_t example_database)) = None" by code_simp+
  have r: "reachable example_database"
    and a: "\<not> schema_rejects example_runtime ''course'' (Delete 1) example_database"
    by (simp_all add: example_database_def example_runtime_def)
  have "fst (delete_course_route example_runtime example_database ''1'') =
      respond 200 (JObj [(''message'', JStr ''Course deleted successfully'')])"
    using delete_then_get_by_id [of example_runtime example_database "''1''" 1] p1 e1 r a
    by blast
  then have s: "status (fst (delete_course_route example_runtime example_database ''1'')) = 200"
    by (simp add: respond_def)
  with delete_then_get_by_id [of example_runtime example_database "''1''" 1]
  have g: "status (fst (get_course_route example_runtime
     (snd (delete_course_route example_runtime example_database ''1'')) ''1'')) = 404"
    by blast
  from delete_then_get_by_id [of example_runtime example_database "''7''" 7] p7 e7
  have m: "status (fst (delete_course_route example_runtime example_database ''7'')) = 500 \<and>
   snd (delete_course_route example_runtime example_database ''7'') = example_database"
    by blast
  from p1 p7 e1 e7 s g m show ?thesis by blast
qed

section \<open>The handlers against the status-code policy\<close>


















section \<open>Probes\<close>

lemma getUsers_reachable: "(\<exists>users. getUsers d = Inr users) \<longleftrightarrow> reachable d"
  by (simp add: getUsers_def prisma_findMany_def)

text \<open>
  Claim C9. For every database, reachable or not, the health probe answers 200 with
  \<open>status: "healthy"\<close>; the readiness probe answers 200 exactly when listing the
  users succeeds, which is when the database is reachable, and 503 otherwise.
\<close>

theorem probes_health_and_ready:
  "status (fst (health_route cfg rt d)) = 200 \<and>
   (\<exists>fields. body (fst (health_route cfg rt d)) = JObj fields \<and>
      map_of fields ''status'' = Some (JStr ''healthy'')) \<and>
   (status (fst (ready_route d)) = 200 \<longleftrightarrow> (\<exists>users. getUsers d = Inr users)) \<and>
   (status (fst (ready_route d)) = 503 \<longleftrightarrow> \<not> (\<exists>users. getUsers d = Inr users)) \<and>
   ((\<exists>users. getUsers d = Inr users) \<longleftrightarrow> reachable d)"
proof -
  have h: "status (fst (health_route cfg rt d)) = 200"
    by (simp add: health_route_def respond_def)
  have b: "\<exists>fields. body (fst (health_route cfg rt d)) = JObj fields \<and>
      map_of fields ''status'' = Some (JStr ''healthy'')"
    by (simp add: health_route_def respond_def)
  have r: "status (fst (ready_route d)) = (if reachable d then 200 else 503)"
    by (simp add: ready_route_def getUsers_def prisma_findMany_def respond_def)
  from h b r show ?thesis
    by (simp add: getUsers_reachable)
qed

theorem probes_health_and_ready_witness:
  "status (fst (health_route example_config example_runtime
      (example_database\<lparr>reachable := False\<rparr>))) = 200 \<and>
   status (fst (ready_route (example_database\<lparr>reachable := False\<rparr>))) = 503 \<and>
   status (fst (ready_route example_database)) = 200"
proof -
  have u: "\<not> reachable (example_database\<lparr>reachable := False\<rparr>)" by simp
  have a: "reachable example_database" by (simp add: example_database_def)
  from probes_health_and_ready
    [of example_config example_runtime "example_database\<lparr>reachable := False\<rparr>"] u
  have 1: "status (fst (health_route example_config example_runtime
      (example_database\<lparr>reachable := False\<rparr>))) = 200"
    and 2: "status (fst (ready_route (example_database\<lparr>reachable := False\<rparr>))) = 503"
    by blast+
  from probes_health_and_ready [of example_config example_runtime example_database] a
  have 3: "status (fst (ready_route example_database)) = 200" by blast
  from 1 2 3 show ?thesis by blast
qed

section \<open>Authentication responses\<close>

text \<open>
  Claim C10. A registration answered 201 and a login answered 200 carry a \<open>user\<close>
  object without a \<open>password\<close> property, while the stored row of that user holds one.
\<close>

theorem auth_responses_omit_password:
  "(register_route rt d reqBody = (resp, d') \<and> status resp = 201 \<longrightarrow>
      (\<exists>fields user stored.
         body resp = JObj fields \<and> map_of fields ''user'' = Some (JObj user) \<and>
         map_of user ''password'' = None \<and>
         stored \<in> set (rows (user_t d')) \<and> map_of stored ''id'' = map_of user ''id'' \<and>
         (\<exists>h. map_of stored ''password'' = Some (JStr h)))) \<and>
   (login_route rt d reqBody = (resp, d') \<and> status resp = 200 \<longrightarrow>
      (\<exists>fields user stored.
         body resp = JObj fields \<and> map_of fields ''user'' = Some (JObj user) \<and>
         map_of user ''password'' = None \<and>
         stored \<in> set (rows (user_t d')) \<and> map_of stored ''id'' = map_of user ''id'' \<and>
         (\<exists>h. map_of stored ''password'' = Some (JStr h))))"
proof (intro conjI impI)
  assume a: "register_route rt d reqBody = (resp, d') \<and> status resp = 201"
  then obtain v hp user where
    c: "createUser rt d (spread_set v ''password'' (JStr hp)) = Inr (d', user)"
    and resp: "resp = respond 201
        (JObj [(''message'', JStr ''User registered successfully''),
               (''user'', JObj (rest_without ''password'' user))])"
    using register_route_201 by blast
  from createUser_Inr [OF c] obtain w where
    w: "zparse (isEmail rt) insertUserSchema (map_of (spread_set v ''password'' (JStr hp))) = Inr w"
    and user: "user = (''id'', JNum (seq (user_t d) + 1)) # w"
    and rows: "rows (user_t d') = rows (user_t d) @ [user]" by blast
  from validated_user_password [OF w] obtain h where "map_of w ''password'' = Some (JStr h)"
    by blast
  with user have "map_of user ''password'' = Some (JStr h)" by simp
  moreover from rows have "user \<in> set (rows (user_t d'))" by simp
  moreover have "map_of user ''id'' = map_of (rest_without ''password'' user) ''id''"
    by (simp add: map_of_rest_without)
  ultimately show "\<exists>fields user stored.
         body resp = JObj fields \<and> map_of fields ''user'' = Some (JObj user) \<and>
         map_of user ''password'' = None \<and>
         stored \<in> set (rows (user_t d')) \<and> map_of stored ''id'' = map_of user ''id'' \<and>
         (\<exists>h. map_of stored ''password'' = Some (JStr h))"
    unfolding resp
    by (intro exI [of _ "[(''message'', JStr ''User registered successfully''),
               (''user'', JObj (rest_without ''password'' user))]"]
          exI [of _ "rest_without ''password'' user"] exI [of _ user])
       (simp add: respond_def map_of_rest_without)
next
  assume a: "login_route rt d reqBody = (resp, d') \<and> status resp = 200"
  then obtain user where
    g: "getUserByEmail d (map_of reqBody ''email'') = Inr (Some user)"
    and vp: "verifyPassword rt (map_of reqBody ''password'') (map_of user ''password'') = Inr True"
    and resp: "resp = respond 200
        (JObj [(''message'', JStr ''Login successful''),
               (''user'', JObj (rest_without ''password'' user))])"
    and d': "d' = d"
    using login_route_200 by blast
  from g obtain e where
    "find (\<lambda>r. map_of r ''email'' = Some (JStr e)) (rows (user_t d)) = Some user"
    by (auto simp: getUserByEmail_def prisma_findUnique_def
        split: if_splits option.splits json.splits)
  then have mem: "user \<in> set (rows (user_t d))"
    by (auto simp: find_Some_iff)
  from vp obtain h where "map_of user ''password'' = Some (JStr h)"
    by (auto simp: verifyPassword_def split: option.splits json.splits)
  with mem d' show "\<exists>fields user stored.
         body resp = JObj fields \<and> map_of fields ''user'' = Some (JObj user) \<and>
         map_of user ''password'' = None \<and>
         stored \<in> set (rows (user_t d')) \<and> map_of stored ''id'' = map_of user ''id'' \<and>
         (\<exists>h. map_of stored ''password'' = Some (JStr h))"
    unfolding resp
    by (intro exI [of _ "[(''message'', JStr ''Login successful''),
               (''user'', JObj (rest_without ''password'' user))]"]
          exI [of _ "rest_without ''password'' user"] exI [of _ user])
       (simp add: respond_def map_of_rest_without)
qed

theorem auth_responses_omit_password_witness:
  "status (fst (register_route example_runtime example_database register_bob)) = 201 \<and>
   status (fst (login_route example_runtime example_database login_ann)) = 200 \<and>
   (\<exists>fields user. body (fst (register_route example_runtime example_database register_bob)) = JObj fields \<and>
      map_of fields ''user'' = Some (JObj user) \<and> map_of user ''password'' = None) \<and>
   (\<exists>fields user. body (fst (login_route example_runtime example_database login_ann)) = JObj fields \<and>
      map_of fields ''user'' = Some (JObj user) \<and> map_of user ''password'' = None)"
proof -
  let ?r = "register_route example_runtime example_database register_bob"
  let ?l = "login_route example_runtime example_database login_ann"
  have r: "?r = (fst ?r, snd ?r) \<and> status (fst ?r) = 201" by code_simp
  have l: "?l = (fst ?l, snd ?l) \<and> status (fst ?l) = 200" by code_simp
  from auth_responses_omit_password
    [of example_runtime example_database register_bob "fst ?r" "snd ?r"] r
  have 1: "\<exists>fields user. body (fst ?r) = JObj fields \<and>
      map_of fields ''user'' = Some (JObj user) \<and> map_of user ''password'' = None"
    by blast
  from auth_responses_omit_password
    [of example_runtime example_database login_ann "fst ?l" "snd ?l"] l
  have 2: "\<exists>fields user. body (fst ?l) = JObj fields \<and>
      map_of fields ''user'' = Some (JObj user) \<and> map_of user ''password'' = None"
    by blast
  from r l 1 2 show ?thesis by blast
qed

end
